theory Spec2Isabelle
  imports Complex_Main "HOL-Library.Signed_Division"
begin

section \<open>The Triton matmul emitter of XLA (ir\_emitter\_triton.cc)\<close>

text \<open>
  A shallow embedding of the parts of \<^verbatim>\<open>xla/service/gpu/ir_emitter_triton.cc\<close> that
  derive the matmul dimensions, plan the launch grid, build block pointers and emit
  the reduce and the bf16 dot emulations. C++ functions become HOL functions with the
  same names; a function that can return a non-OK \<^verbatim>\<open>absl::Status\<close> or abort
  returns a sum whose left side is the failure.
\<close>

subsection \<open>Machine integers\<close>

text \<open>
  \<^verbatim>\<open>int\<close> and \<^verbatim>\<open>int64_t\<close> values are integers of HOL; every arithmetic
  result is narrowed to its C++ type by \<open>int32\<close> or \<open>int64\<close> (two's complement
  wrap-around). \<^verbatim>\<open>/\<close> and \<^verbatim>\<open>%\<close> truncate towards zero (\<open>sdiv\<close>, \<open>smod\<close>);
  a zero divisor traps and is the failure \<open>Fatal\<close>.
\<close>

definition int32 :: "int \<Rightarrow> int" where
  "int32 v = signed_take_bit 31 v"

definition int64 :: "int \<Rightarrow> int" where
  "int64 v = signed_take_bit 63 v"

definition INT_MAX :: int where
  "INT_MAX = 2147483647"

subsection \<open>Status values and failures\<close>

datatype StatusCode =
  kCancelled | kInvalidArgument | kResourceExhausted | kUnimplemented | kInternal

text \<open>
  An \<^verbatim>\<open>absl::Status\<close> that is not OK: code, message and payloads. A message built
  with a format string keeps the format in \<open>message\<close> and its arguments in
  \<open>message_args\<close>.
\<close>

record Status =
  code :: StatusCode
  message :: string
  message_args :: "int list"
  payloads :: "(string \<times> string) list"

text \<open>
  \<open>Error\<close> is a returned status; \<open>Fatal\<close> is the end of the process
  (\<^verbatim>\<open>CHECK\<close>, \<^verbatim>\<open>LOG(FATAL)\<close>, \<^verbatim>\<open>.at()\<close> or an index out of range, a null
  dereference, a division by zero).
\<close>

datatype error = Error Status | Fatal string

type_synonym 'a StatusOr = "error + 'a"

definition andThen :: "'a StatusOr \<Rightarrow> ('a \<Rightarrow> 'b StatusOr) \<Rightarrow> 'b StatusOr" where
  "andThen r f = (case r of Inl e \<Rightarrow> Inl e | Inr v \<Rightarrow> f v)"

definition InternalError :: "string \<Rightarrow> Status" where
  "InternalError msg =
     \<lparr>code = kInternal, message = msg, message_args = [], payloads = []\<rparr>"

definition CancelledError :: "string \<Rightarrow> Status" where
  "CancelledError msg =
     \<lparr>code = kCancelled, message = msg, message_args = [], payloads = []\<rparr>"

definition ResourceExhausted :: "string \<Rightarrow> int list \<Rightarrow> Status" where
  "ResourceExhausted fmt args =
     \<lparr>code = kResourceExhausted, message = fmt, message_args = args, payloads = []\<rparr>"

definition SetPayload :: "Status \<Rightarrow> string \<Rightarrow> string \<Rightarrow> Status" where
  "SetPayload s url payload =
     s\<lparr>payloads := (url, payload) # filter (\<lambda>p. fst p \<noteq> url) (payloads s)\<rparr>"

definition GetPayload :: "Status \<Rightarrow> string \<Rightarrow> string option" where
  "GetPayload s url = map_of (payloads s) url"

definition TF_RET_CHECK :: "bool \<Rightarrow> string \<Rightarrow> unit StatusOr" where
  "TF_RET_CHECK cond text = (if cond then Inr () else Inl (Error (InternalError text)))"

definition CHECK :: "bool \<Rightarrow> string \<Rightarrow> unit StatusOr" where
  "CHECK cond text = (if cond then Inr () else Inl (Fatal text))"

text \<open>\<^verbatim>\<open>v.at(i)\<close>, \<^verbatim>\<open>v[i]\<close> and a repeated field's \<^verbatim>\<open>Get(i)\<close>: no read out of range.\<close>

definition at_index :: "'a list \<Rightarrow> int \<Rightarrow> 'a StatusOr" where
  "at_index xs i =
     (if 0 \<le> i \<and> i < int (length xs) then Inr (xs ! nat i)
      else Inl (Fatal ''index out of range''))"

definition cpp_div :: "int \<Rightarrow> int \<Rightarrow> int StatusOr" where
  "cpp_div a b = (if b = 0 then Inl (Fatal ''division by zero'') else Inr (a sdiv b))"

definition cpp_rem :: "int \<Rightarrow> int \<Rightarrow> int StatusOr" where
  "cpp_rem a b = (if b = 0 then Inl (Fatal ''division by zero'') else Inr (a smod b))"

subsection \<open>Tiling configuration, shapes and the operator graph\<close>

text \<open>
  \<^verbatim>\<open>TritonGemmConfig\<close>, \<^verbatim>\<open>Shape\<close>, \<^verbatim>\<open>HloInstruction\<close> and
  \<^verbatim>\<open>TritonFusionAnalysis\<close> are declared in other files; the records below hold
  the members that this file reads. All fields of \<^verbatim>\<open>TritonGemmConfig\<close> are
  \<^verbatim>\<open>int\<close>.
\<close>

record TritonGemmConfig =
  block_m :: int
  block_n :: int
  block_k :: int
  split_k :: int
  num_stages :: int
  num_warps :: int
  num_ctas :: int

datatype PrimitiveType =
  PRED | S8 | S16 | S32 | S64 | U8 | U16 | U32 | U64 | F16 | BF16 | F32 | F64 | F8E5M2
  | C64 | TUPLE

record Shape =
  element_type :: PrimitiveType
  dimensions :: "int list"
  minor_to_major :: "int list"

definition rank :: "Shape \<Rightarrow> int" where
  "rank s = int (length (dimensions s))"

definition IsTuple :: "Shape \<Rightarrow> bool" where
  "IsTuple s = (element_type s = TUPLE)"

definition dimensions_minor :: "Shape \<Rightarrow> int \<Rightarrow> int StatusOr" where
  "dimensions_minor s i = andThen (at_index (minor_to_major s) i) (\<lambda>d. at_index (dimensions s) d)"

text \<open>
  \<^verbatim>\<open>ShapeUtil::ElementsIn\<close> is defined in shape\_util.cc: the number of elements
  of an array shape, the product of its extents.
\<close>

definition ElementsIn :: "Shape \<Rightarrow> int" where
  "ElementsIn s = prod_list (dimensions s)"

datatype HloOpcode =
  kParameter | kConstant | kBroadcast | kReduce | kConcatenate | kDot | kPad | kBitcast
  | kTranspose | kSlice | kReshape | kConvert | kTuple | kFusion | kCopy | kAbs | kNot
  | kNegate | kAdd | kSubtract | kMultiply | kDivide | kMaximum | kMinimum | kAnd | kOr
  | kXor | kCompare | kSelect | kExp

record DotDimensionNumbers =
  lhs_contracting_dimensions :: "int list"
  rhs_contracting_dimensions :: "int list"
  lhs_batch_dimensions :: "int list"
  rhs_batch_dimensions :: "int list"

text \<open>
  The value of a floating-point constant: a finite number, an infinity or a NaN.
  No rounding is modelled; the emitter only moves such constants around.
\<close>

datatype FpValue = Finite rat | PosInf | NegInf | NaN

datatype Literal = IntLiteral int | FpLiteral FpValue

record HloAttributes =
  dot_dims :: DotDimensionNumbers
  reduce_dimensions :: "int list"
  literal :: Literal
  parameter_number :: int
  sparse_operands :: int

text \<open>
  An instruction with its operands as subterms. \<open>unique_id\<close> stands for the address
  of the instruction, which the analysis and the emitter use as a key; \<open>to_apply\<close>
  is the called computation of a reduce in post order.
\<close>

datatype HloInstruction =
  HloInstruction (unique_id: nat) (opcode: HloOpcode) (shape: Shape)
    (operands: "HloInstruction list") (attributes: HloAttributes)
    (to_apply: "HloInstruction list")

definition operand :: "HloInstruction \<Rightarrow> int \<Rightarrow> HloInstruction StatusOr" where
  "operand hlo i = at_index (operands hlo) i"

definition operand_count :: "HloInstruction \<Rightarrow> int" where
  "operand_count hlo = int (length (operands hlo))"

definition shape_dimensions :: "Shape \<Rightarrow> int \<Rightarrow> int StatusOr" where
  "shape_dimensions s i = at_index (dimensions s) i"

record HloComputation =
  instructions :: "HloInstruction list"
  root_instruction :: HloInstruction

text \<open>\<^verbatim>\<open>hlo_query::GetFirstInstructionWithOpcode\<close>: the first such instruction, if any.\<close>

definition GetFirstInstructionWithOpcode ::
  "HloComputation \<Rightarrow> HloOpcode \<Rightarrow> HloInstruction option" where
  "GetFirstInstructionWithOpcode computation oc =
     find (\<lambda>i. opcode i = oc) (instructions computation)"

datatype Scope = LHS | RHS | META | OUTPUT

record IterationSpecFragment =
  stride :: int
  count :: int
  slice_start :: int
  sliced_count :: int

type_synonym DimIterationSpec = "IterationSpecFragment list"

text \<open>
  The analysis is an oracle to the emitter: \<open>IterSpec scope hlo dim\<close> is the
  iteration specification or \<open>None\<close> for the null pointer; \<open>ScopeParameters\<close>
  lists the parameters of a scope.
\<close>

record TritonFusionAnalysis =
  IterSpec :: "Scope \<Rightarrow> nat \<Rightarrow> int \<Rightarrow> DimIterationSpec option"
  ScopeParameters :: "Scope \<Rightarrow> HloInstruction list"

definition deref :: "'a option \<Rightarrow> 'a StatusOr" where
  "deref p = (case p of None \<Rightarrow> Inl (Fatal ''null pointer'') | Some v \<Rightarrow> Inr v)"

subsection \<open>MatMulDims\<close>

text \<open>
  \<^verbatim>\<open>GetNonContractingDims\<close> is defined in matmul\_utils.cc: the dimensions of the
  operand that are neither batch nor contracting, in increasing order.
\<close>

definition GetNonContractingDims :: "Shape \<Rightarrow> int list \<Rightarrow> int list \<Rightarrow> int list" where
  "GetNonContractingDims s batch_dims contracting_dims =
     filter (\<lambda>d. d \<notin> set batch_dims \<and> d \<notin> set contracting_dims) [0 .. rank s - 1]"

fun GetLhsNoncontractingSplitSpec_loop ::
  "TritonFusionAnalysis \<Rightarrow> int \<Rightarrow> HloInstruction list \<Rightarrow> DimIterationSpec option \<Rightarrow>
   DimIterationSpec option StatusOr" where
  "GetLhsNoncontractingSplitSpec_loop analysis idx [] result = Inr result"
| "GetLhsNoncontractingSplitSpec_loop analysis idx (lhs_param # rest) result =
     (case IterSpec analysis LHS (unique_id lhs_param) idx of
        None \<Rightarrow> GetLhsNoncontractingSplitSpec_loop analysis idx rest result
      | Some spec \<Rightarrow>
          if length spec > 1 then
            if length spec \<noteq> 2 then Inl (Fatal ''CHECK_EQ(spec->size(), 2)'')
            else
              (case result of
                 None \<Rightarrow> GetLhsNoncontractingSplitSpec_loop analysis idx rest (Some spec)
               | Some r \<Rightarrow>
                   if count (r ! 0) \<noteq> count (spec ! 0) then
                     Inl (Fatal ''CHECK_EQ(result->at(0).count, spec->at(0).count)'')
                   else if count (r ! 1) \<noteq> count (spec ! 1) then
                     Inl (Fatal ''CHECK_EQ(result->at(1).count, spec->at(1).count)'')
                   else GetLhsNoncontractingSplitSpec_loop analysis idx rest (Some spec))
          else GetLhsNoncontractingSplitSpec_loop analysis idx rest result)"

definition GetLhsNoncontractingSplitSpec ::
  "TritonFusionAnalysis \<Rightarrow> int \<Rightarrow> DimIterationSpec option StatusOr" where
  "GetLhsNoncontractingSplitSpec analysis lhs_noncontracting_dim_idx =
     GetLhsNoncontractingSplitSpec_loop analysis lhs_noncontracting_dim_idx
       (ScopeParameters analysis LHS) None"

text \<open>
  The members \<^verbatim>\<open>m\<close>, \<^verbatim>\<open>n\<close> and \<^verbatim>\<open>k\<close> are the fields \<open>dims_m\<close>, \<open>dims_n\<close>
  and \<open>dims_k\<close>.
\<close>

record MatMulDims =
  out_split_k_dim_idx :: "int option"
  lhs_batch_dim_idx :: "int option"
  rhs_batch_dim_idx :: "int option"
  out_batch_dim_idx :: "int option"
  lhs_noncontracting_split :: "int option"
  lhs_contracting_dim_idx :: int
  lhs_noncontracting_dim_idx :: int
  rhs_contracting_dim_idx :: int
  rhs_noncontracting_dim_idx :: int
  out_lhs_noncontracting_dim_idx :: int
  out_rhs_noncontracting_dim_idx :: int
  dims_m :: int
  dims_n :: int
  dims_k :: int

definition last_element :: "'a list \<Rightarrow> 'a StatusOr" where
  "last_element xs = (if xs = [] then Inl (Fatal ''index out of range'') else Inr (last xs))"

text \<open>
  \<^verbatim>\<open>MatMulDims::Create\<close>. \<open>parent\<close> is \<^verbatim>\<open>dot.parent()\<close>, the computation of
  the dot.
\<close>

definition Create ::
  "TritonGemmConfig \<Rightarrow> HloComputation \<Rightarrow> HloInstruction \<Rightarrow> TritonFusionAnalysis \<Rightarrow>
   MatMulDims StatusOr" where
  "Create config parent dot analysis =
    (let out_split_k = (if split_k config > 1 then Some 0 else None);
         num_split_k_dims = (if split_k config > 1 then 1 else 0);
         dims = dot_dims (attributes dot)
     in
     andThen (at_index (lhs_contracting_dimensions dims) 0) (\<lambda>lhs_contracting.
     andThen (operand dot 0) (\<lambda>operand0.
     andThen (at_index (GetNonContractingDims (shape operand0) (lhs_batch_dimensions dims)
                (lhs_contracting_dimensions dims)) 0) (\<lambda>lhs_noncontracting.
     andThen (at_index (rhs_contracting_dimensions dims) 0) (\<lambda>rhs_contracting.
     andThen (operand dot 1) (\<lambda>operand1.
     andThen (at_index (GetNonContractingDims (shape operand1) (rhs_batch_dimensions dims)
                (rhs_contracting_dimensions dims)) 0) (\<lambda>rhs_noncontracting.
     andThen
       (if int (length (lhs_batch_dimensions dims)) > num_split_k_dims then
          andThen (last_element (lhs_batch_dimensions dims)) (\<lambda>lhs_batch.
          andThen (last_element (rhs_batch_dimensions dims)) (\<lambda>rhs_batch.
          Inr (Some (int32 lhs_batch), Some (int32 rhs_batch), Some (int32 num_split_k_dims))))
        else Inr (None, None, None)) (\<lambda>(lhs_batch_idx, rhs_batch_idx, out_batch_idx).
     let out_rhs_noncontracting = int32 (int64 (rank (shape dot) - 1));
         out_lhs_noncontracting = int32 (int64 (rank (shape dot) - 2));
         root = root_instruction parent;
         iter_spec = IterSpec analysis OUTPUT (unique_id root) out_rhs_noncontracting
     in
     andThen (TF_RET_CHECK (iter_spec \<noteq> None) ''iter_spec != nullptr'') (\<lambda>_.
     andThen (deref iter_spec) (\<lambda>spec_n.
     andThen (at_index spec_n 0) (\<lambda>fragment_n.
     andThen
       (if split_k config > 1 then
          andThen (operand operand1 0) (\<lambda>producer. Inr (opcode producer = kPad))
        else Inr False) (\<lambda>padded.
     andThen
       (if padded then
          andThen (TF_RET_CHECK (opcode operand1 = kBitcast)
                     ''dot.operand(1)->opcode() == HloOpcode::kBitcast'') (\<lambda>_.
          andThen (operand operand1 0) (\<lambda>pad.
          andThen (operand pad 0) (\<lambda>unpadded.
          shape_dimensions (shape unpadded) (int64 (rhs_contracting - 1)))))
        else
          andThen (shape_dimensions (shape operand1) rhs_contracting) (\<lambda>extent.
          Inr (int64 (extent * split_k config)))) (\<lambda>k.
     andThen (GetLhsNoncontractingSplitSpec analysis (int32 lhs_noncontracting))
       (\<lambda>lhs_noncontracting_split_spec.
     andThen
       (case lhs_noncontracting_split_spec of
          Some spec \<Rightarrow>
            andThen (at_index spec 0) (\<lambda>minor.
            andThen (at_index spec 1) (\<lambda>major.
            Inr (count minor, Some (count major))))
        | None \<Rightarrow>
            andThen (deref (IterSpec analysis OUTPUT (unique_id root) out_lhs_noncontracting))
              (\<lambda>spec_m.
            andThen (at_index spec_m 0) (\<lambda>fragment_m.
            Inr (count fragment_m, None)))) (\<lambda>(m, split).
     andThen (TF_RET_CHECK (\<not> (out_batch_idx \<noteq> None \<and> split \<noteq> None))
                ''!(out_batch_dim_idx.has_value() && lhs_noncontracting_split.has_value())'')
       (\<lambda>_.
     andThen (TF_RET_CHECK (m \<ge> 1) ''matmul_dims.m >= 1'') (\<lambda>_.
     andThen (TF_RET_CHECK (count fragment_n \<ge> 1) ''matmul_dims.n >= 1'') (\<lambda>_.
     Inr \<lparr>out_split_k_dim_idx = out_split_k,
          lhs_batch_dim_idx = lhs_batch_idx,
          rhs_batch_dim_idx = rhs_batch_idx,
          out_batch_dim_idx = out_batch_idx,
          lhs_noncontracting_split = split,
          lhs_contracting_dim_idx = int32 lhs_contracting,
          lhs_noncontracting_dim_idx = int32 lhs_noncontracting,
          rhs_contracting_dim_idx = int32 rhs_contracting,
          rhs_noncontracting_dim_idx = int32 rhs_noncontracting,
          out_lhs_noncontracting_dim_idx = out_lhs_noncontracting,
          out_rhs_noncontracting_dim_idx = out_rhs_noncontracting,
          dims_m = m,
          dims_n = count fragment_n,
          dims_k = k\<rparr>))))))))))))))))))"

subsection \<open>MatMulLaunchConfig\<close>

datatype ProgramIDDim = X | Y | Z

datatype BlockDim = BlockDim int int int

datatype ThreadDim = ThreadDim int int int

datatype LaunchDimensions = LaunchDimensions BlockDim ThreadDim

text \<open>\<^verbatim>\<open>WarpSize()\<close> is declared in ir\_emission\_utils.h and returns 32.\<close>

definition WarpSize :: int where
  "WarpSize = 32"

record MatMulLaunchConfig =
  grid_m :: int
  grid_n :: int
  launch_dims :: LaunchDimensions
  batch_program_id_dim :: ProgramIDDim
  noncontracting_program_id_dim :: ProgramIDDim

definition kBlockCountYZLimit :: int where
  "kBlockCountYZLimit = 65536"

text \<open>
  The constructor of \<^verbatim>\<open>MatMulLaunchConfig\<close>. Its only failures end the process:
  the \<^verbatim>\<open>CHECK_LT\<close> on the block count, a zero block size, an index out of range.
\<close>

definition MakeMatMulLaunchConfig ::
  "TritonGemmConfig \<Rightarrow> HloInstruction \<Rightarrow> MatMulDims \<Rightarrow> MatMulLaunchConfig StatusOr" where
  "MakeMatMulLaunchConfig config dot dims =
     andThen (cpp_div (int64 (int64 (dims_m dims + block_m config) - 1)) (block_m config))
       (\<lambda>gm.
     andThen (cpp_div (int64 (int64 (dims_n dims + block_n config) - 1)) (block_n config))
       (\<lambda>gn.
     let grid_m = int64 gm; grid_n = int64 gn in
     andThen
       (case lhs_noncontracting_split dims of
          Some split \<Rightarrow> Inr split
        | None \<Rightarrow>
            (case out_batch_dim_idx dims of
               Some idx \<Rightarrow> shape_dimensions (shape dot) idx
             | None \<Rightarrow> Inr 1)) (\<lambda>batch_size.
     andThen (CHECK (int64 (int64 (batch_size * grid_m) * grid_n)
                       < int64 (kBlockCountYZLimit * kBlockCountYZLimit))
                ''batch_size * grid_m * grid_n < kBlockCountYZLimit * kBlockCountYZLimit'')
       (\<lambda>_.
     let large_batch = (batch_size \<ge> kBlockCountYZLimit) in
     if large_batch then
       Inr \<lparr>grid_m = grid_m, grid_n = grid_n,
            launch_dims = LaunchDimensions
              (BlockDim batch_size (int64 (grid_m * grid_n)) (split_k config))
              (ThreadDim (int64 (num_warps config * WarpSize)) 1 1),
            batch_program_id_dim = X,
            noncontracting_program_id_dim = Y\<rparr>
     else
       Inr \<lparr>grid_m = grid_m, grid_n = grid_n,
            launch_dims = LaunchDimensions
              (BlockDim (int64 (grid_m * grid_n)) batch_size (split_k config))
              (ThreadDim (int64 (num_warps config * WarpSize)) 1 1),
            batch_program_id_dim = Y,
            noncontracting_program_id_dim = X\<rparr>))))"

definition ValidateMatMulConfig :: "TritonGemmConfig \<Rightarrow> HloInstruction \<Rightarrow> unit StatusOr" where
  "ValidateMatMulConfig config dot =
     andThen (TF_RET_CHECK (split_k config \<ge> 1) ''config.split_k >= 1'') (\<lambda>_.
     andThen (TF_RET_CHECK (block_m config \<ge> 16) ''config.block_m >= 16'') (\<lambda>_.
     andThen (TF_RET_CHECK (block_k config \<ge> 16) ''config.block_k >= 16'') (\<lambda>_.
     andThen (TF_RET_CHECK (block_n config \<ge> 16) ''config.block_n >= 16'') (\<lambda>_.
     let dims = dot_dims (attributes dot);
         num_batch_dims =
           int32 (int (length (lhs_batch_dimensions dims))
                  - (if split_k config > 1 then 1 else 0))
     in
     andThen (TF_RET_CHECK (num_batch_dims \<le> 1) ''num_batch_dims <= 1'') (\<lambda>_.
     andThen
       (if split_k config > 1 then
          andThen (at_index (lhs_contracting_dimensions dims) 0) (\<lambda>lhs_contracting.
          andThen (at_index (rhs_contracting_dimensions dims) 0) (\<lambda>rhs_contracting.
          let lhs_split_k_dim_idx = int32 (int64 (lhs_contracting - 1));
              rhs_split_k_dim_idx = int32 (int64 (rhs_contracting - 1))
          in
          andThen (at_index (lhs_batch_dimensions dims) 0) (\<lambda>lhs_batch0.
          andThen (TF_RET_CHECK (lhs_batch0 = lhs_split_k_dim_idx)
                     ''dims.lhs_batch_dimensions(0) == lhs_split_k_dim_idx'') (\<lambda>_.
          andThen (at_index (rhs_batch_dimensions dims) 0) (\<lambda>rhs_batch0.
          andThen (TF_RET_CHECK (rhs_batch0 = rhs_split_k_dim_idx)
                     ''dims.rhs_batch_dimensions(0) == rhs_split_k_dim_idx'') (\<lambda>_.
          andThen (operand dot 0) (\<lambda>operand0.
          andThen (shape_dimensions (shape operand0) lhs_split_k_dim_idx) (\<lambda>lhs_extent.
          andThen (TF_RET_CHECK (split_k config = lhs_extent)
                     ''config.split_k == lhs split-k extent'') (\<lambda>_.
          andThen (operand dot 1) (\<lambda>operand1.
          andThen (shape_dimensions (shape operand1) rhs_split_k_dim_idx) (\<lambda>rhs_extent.
          TF_RET_CHECK (split_k config = rhs_extent)
            ''config.split_k == rhs split-k extent'')))))))))))
        else Inr ()) (\<lambda>_.
     andThen (TF_RET_CHECK (length (lhs_contracting_dimensions dims) = 1)
                ''dims.lhs_contracting_dimensions_size() == 1'') (\<lambda>_.
     andThen (TF_RET_CHECK (length (rhs_contracting_dimensions dims) = 1)
                ''dims.rhs_contracting_dimensions_size() == 1'') (\<lambda>_.
     andThen (operand dot 0) (\<lambda>operand0.
     TF_RET_CHECK
       (rank (shape operand0)
          = int64 (int32 (2 + (if split_k config > 1 then 1 else 0)) + num_batch_dims))
       ''dot.operand(0)->shape().rank() == 2 + (config.split_k > 1 ? 1 : 0) + num_batch_dims''
     )))))))))"

subsection \<open>The tiling complexity heuristic\<close>

definition kComplexityHeuristicLimit :: int where
  "kComplexityHeuristicLimit = 9000"

definition CheckGemmTilingComplexityHeuristic :: "TritonGemmConfig \<Rightarrow> unit StatusOr" where
  "CheckGemmTilingComplexityHeuristic config =
     andThen
       (cpp_div
          (int32 (int32 (block_m config * block_n config)
                  + int32 (int32 (block_m config + block_n config) * block_k config)))
          (num_warps config)) (\<lambda>quotient.
     let complexity_heuristic_value = int32 quotient in
     if complexity_heuristic_value > kComplexityHeuristicLimit then
       Inl (Error (ResourceExhausted ''Tiling complexity heuristic exceeded: %d > %d''
                     [complexity_heuristic_value, kComplexityHeuristicLimit]))
     else Inr ())"

subsection \<open>The emitted program\<close>

text \<open>
  An \<^verbatim>\<open>mlir::Value\<close> is the term of the operation that defines it, with its operands
  as subterms: \<^verbatim>\<open>b.create<Op>(args)\<close> is the constructor \<open>Op\<close> applied to the
  arguments. Only operations that the functions below create are listed. A cast
  operation carries its result type, as in the source.
\<close>

datatype Type =
  NoneType | IntegerType nat | Float16Type | BFloat16Type | Float32Type | Float64Type
  | RankedTensorType "int list" Type | PointerType Type

datatype Attribute =
  IntegerAttr Type int | FloatAttr Type FpValue
  | DenseIntElementsAttr Type int | DenseFPElementsAttr Type FpValue

datatype CmpIPredicate = slt

datatype CmpFPredicate = OGT | UNE

datatype PaddingOption = PAD_ZERO | PAD_NAN

datatype CacheModifier = CacheModifier_NONE

datatype EvictionPolicy = EvictionPolicy_NORMAL

datatype Value =
  NullValue
  | BlockArgument int Type
  | ConstantOp Attribute
  | GetProgramIdOp ProgramIDDim
  | AddIOp Value Value
  | SubIOp Value Value
  | MulIOp Value Value
  | DivSIOp Value Value
  | RemSIOp Value Value
  | AndIOp Value Value
  | AddFOp Value Value
  | SubFOp Value Value
  | AbsFOp Value
  | CmpIOp CmpIPredicate Value Value
  | CmpFOp CmpFPredicate Value Value
  | SelectOp Value Value Value
  | ExtFOp Type Value
  | TruncFOp Type Value
  | ExtSIOp Type Value
  | ExtUIOp Type Value
  | TruncIOp Type Value
  | SIToFPOp Type Value
  | UIToFPOp Type Value
  | FPToSIOp Type Value
  | BitcastOp Type Value
  | SplatOp Type Value
  | MakeRangeOp Type int int
  | ReduceOp "Value list" int Value
  | DotOp Value Value Value bool int
  | LoadOp Value "int list" "PaddingOption option" CacheModifier EvictionPolicy bool
  | AddPtrOp Type Value Value
  | MakeTensorPtrOp Value "Value list" "Value list" "Value list" "int list" "int list"
  | AdvanceOp Type Value "Value list"

definition getElementTypeOrSelf :: "Type \<Rightarrow> Type" where
  "getElementTypeOrSelf t = (case t of RankedTensorType shp el \<Rightarrow> el | _ \<Rightarrow> t)"

definition isShapedType :: "Type \<Rightarrow> bool" where
  "isShapedType t = (case t of RankedTensorType shp el \<Rightarrow> True | _ \<Rightarrow> False)"

definition getShape :: "Type \<Rightarrow> int list" where
  "getShape t = (case t of RankedTensorType shp el \<Rightarrow> shp | _ \<Rightarrow> [])"

definition clone :: "Type \<Rightarrow> Type \<Rightarrow> Type" where
  "clone t el = (case t of RankedTensorType shp _ \<Rightarrow> RankedTensorType shp el | _ \<Rightarrow> el)"

definition getPointeeType :: "Type \<Rightarrow> Type" where
  "getPointeeType t = (case t of PointerType p \<Rightarrow> p | _ \<Rightarrow> NoneType)"

definition attrType :: "Attribute \<Rightarrow> Type" where
  "attrType a =
     (case a of IntegerAttr t _ \<Rightarrow> t | FloatAttr t _ \<Rightarrow> t
      | DenseIntElementsAttr t _ \<Rightarrow> t | DenseFPElementsAttr t _ \<Rightarrow> t)"

text \<open>
  The result type of each operation. Where the builder is not given a type it is
  inferred: from the left operand for arithmetic, \<^verbatim>\<open>i1\<close> of the operands' shape for
  comparisons, the source without the reduced axis for a reduce (a scalar when no
  axis is left).
\<close>

fun getType :: "Value \<Rightarrow> Type" where
  "getType NullValue = NoneType"
| "getType (BlockArgument i t) = t"
| "getType (ConstantOp a) = attrType a"
| "getType (GetProgramIdOp d) = IntegerType 32"
| "getType (AddIOp a b) = getType a"
| "getType (SubIOp a b) = getType a"
| "getType (MulIOp a b) = getType a"
| "getType (DivSIOp a b) = getType a"
| "getType (RemSIOp a b) = getType a"
| "getType (AndIOp a b) = getType a"
| "getType (AddFOp a b) = getType a"
| "getType (SubFOp a b) = getType a"
| "getType (AbsFOp a) = getType a"
| "getType (CmpIOp p a b) = clone (getType a) (IntegerType 1)"
| "getType (CmpFOp p a b) = clone (getType a) (IntegerType 1)"
| "getType (SelectOp c a b) = getType a"
| "getType (ExtFOp t a) = t"
| "getType (TruncFOp t a) = t"
| "getType (ExtSIOp t a) = t"
| "getType (ExtUIOp t a) = t"
| "getType (TruncIOp t a) = t"
| "getType (SIToFPOp t a) = t"
| "getType (UIToFPOp t a) = t"
| "getType (FPToSIOp t a) = t"
| "getType (BitcastOp t a) = t"
| "getType (SplatOp t a) = t"
| "getType (MakeRangeOp t s e) = t"
| "getType (ReduceOp [] axis body) = NoneType"
| "getType (ReduceOp (src # srcs) axis body) =
     (case getType src of
        RankedTensorType shp el \<Rightarrow>
          if length shp \<le> 1 then el
          else RankedTensorType (take (nat axis) shp @ drop (Suc (nat axis)) shp) el
      | _ \<Rightarrow> NoneType)"
| "getType (DotOp a b c allowTF32 maxNumImpreciseAcc) = getType c"
| "getType (LoadOp p checks padding cache evict isVolatile) = getPointeeType (getType p)"
| "getType (AddPtrOp t p off) = t"
| "getType (MakeTensorPtrOp base shp strides offsets block_dims order) =
     PointerType (RankedTensorType block_dims (getPointeeType (getType base)))"
| "getType (AdvanceOp t p offsets) = t"

definition isFloatType :: "Type \<Rightarrow> bool" where
  "isFloatType t = (t = Float16Type \<or> t = BFloat16Type \<or> t = Float32Type \<or> t = Float64Type)"

definition isIntegerType :: "Type \<Rightarrow> bool" where
  "isIntegerType t = (case t of IntegerType w \<Rightarrow> True | _ \<Rightarrow> False)"

definition getIntOrFloatBitWidth :: "Type \<Rightarrow> nat" where
  "getIntOrFloatBitWidth t =
     (case t of IntegerType w \<Rightarrow> w | Float16Type \<Rightarrow> 16 | BFloat16Type \<Rightarrow> 16
      | Float32Type \<Rightarrow> 32 | Float64Type \<Rightarrow> 64 | _ \<Rightarrow> 0)"

definition getFPMantissaWidth :: "Type \<Rightarrow> nat" where
  "getFPMantissaWidth t =
     (case t of Float16Type \<Rightarrow> 11 | BFloat16Type \<Rightarrow> 8 | Float32Type \<Rightarrow> 24
      | Float64Type \<Rightarrow> 53 | _ \<Rightarrow> 0)"

definition isTensorPointerType :: "Type \<Rightarrow> bool" where
  "isTensorPointerType t = (case t of PointerType p \<Rightarrow> isShapedType p | _ \<Rightarrow> False)"

text \<open>\<^verbatim>\<open>TritonType\<close>: the XLA element types that have a Triton type.\<close>

definition TritonType :: "PrimitiveType \<Rightarrow> Type StatusOr" where
  "TritonType t =
     (case t of
        F64 \<Rightarrow> Inr Float64Type
      | F32 \<Rightarrow> Inr Float32Type
      | F16 \<Rightarrow> Inr Float16Type
      | BF16 \<Rightarrow> Inr BFloat16Type
      | S64 \<Rightarrow> Inr (IntegerType 64)
      | S32 \<Rightarrow> Inr (IntegerType 32)
      | S16 \<Rightarrow> Inr (IntegerType 16)
      | PRED \<Rightarrow> Inr (IntegerType 1)
      | S8 \<Rightarrow> Inr (IntegerType 8)
      | _ \<Rightarrow> Inl (Fatal ''This type is not supported yet''))"

definition StorageType :: "Type \<Rightarrow> Type" where
  "StorageType t = (if t = IntegerType 1 then IntegerType 8 else t)"

text \<open>
  The C++ value given to \<^verbatim>\<open>CreateConst\<close> is a \<open>Literal\<close>: an integer or a
  floating-point value. An integer attribute keeps the value in the width of its type
  (\<^verbatim>\<open>APInt\<close>); a float attribute takes \<^verbatim>\<open>static_cast<double>(value)\<close>. The
  conversion of a value that is not finite to an integer is undefined.
\<close>

definition APInt :: "nat \<Rightarrow> int \<Rightarrow> int" where
  "APInt width v = signed_take_bit (width - 1) v"

definition to_double :: "Literal \<Rightarrow> FpValue" where
  "to_double v = (case v of IntLiteral i \<Rightarrow> Finite (of_int i) | FpLiteral f \<Rightarrow> f)"

definition to_int64 :: "Literal \<Rightarrow> int StatusOr" where
  "to_int64 v =
     (case v of
        IntLiteral i \<Rightarrow> Inr (int64 i)
      | FpLiteral (Finite r) \<Rightarrow> Inr (int64 (sgn (fst (quotient_of r))
                                  * (\<bar>fst (quotient_of r)\<bar> div snd (quotient_of r))))
      | FpLiteral _ \<Rightarrow> Inl (Fatal ''conversion of a non-finite value to an integer''))"

definition CreateConst :: "Type \<Rightarrow> Literal \<Rightarrow> Value StatusOr" where
  "CreateConst ty v =
     (if isIntegerType ty then
        andThen (to_int64 v) (\<lambda>i.
        Inr (ConstantOp (IntegerAttr ty (APInt (getIntOrFloatBitWidth ty) i))))
      else if isFloatType ty then Inr (ConstantOp (FloatAttr ty (to_double v)))
      else Inl (Fatal ''Constant type not supported''))"

definition CreateConstTensor :: "Type \<Rightarrow> Literal \<Rightarrow> int list \<Rightarrow> Value StatusOr" where
  "CreateConstTensor ty v shp =
     (let tensor_type = RankedTensorType shp ty in
      if isIntegerType ty then
        andThen (to_int64 v) (\<lambda>i.
        Inr (ConstantOp (DenseIntElementsAttr tensor_type (APInt (getIntOrFloatBitWidth ty) i))))
      else if isFloatType ty then
        Inr (ConstantOp (DenseFPElementsAttr tensor_type (to_double v)))
      else Inl (Fatal ''Constant type not supported''))"

definition ZerosLike :: "Value \<Rightarrow> Value StatusOr" where
  "ZerosLike x =
     (if isShapedType (getType x) then
        CreateConstTensor (getElementTypeOrSelf (getType x)) (IntLiteral 0)
          (getShape (getType x))
      else CreateConst (getType x) (IntLiteral 0))"

text \<open>\<^verbatim>\<open>Cast\<close>: the Triton type conversions. All operations on bf16 go through f32.\<close>

function Cast :: "Value \<Rightarrow> Type \<Rightarrow> Value StatusOr" where
  "Cast v dst_element_ty =
     (let src_ty = getType v;
          src_element_ty = getElementTypeOrSelf src_ty;
          dst_ty = clone src_ty dst_element_ty;
          fp32_ty = clone src_ty Float32Type
      in
      if src_ty = dst_ty then Inr v
      else if src_element_ty = BFloat16Type then Cast (ExtFOp fp32_ty v) dst_element_ty
      else if dst_element_ty = BFloat16Type \<and> src_element_ty \<noteq> IntegerType 8 then
        andThen (Cast v Float32Type) (\<lambda>c. Inr (TruncFOp dst_ty c))
      else if isFloatType src_element_ty \<and> isFloatType dst_element_ty then
        (if getFPMantissaWidth src_element_ty > getFPMantissaWidth dst_element_ty
         then Inr (TruncFOp dst_ty v) else Inr (ExtFOp dst_ty v))
      else if isIntegerType src_element_ty \<and> isIntegerType dst_element_ty then
        (if getIntOrFloatBitWidth src_element_ty < getIntOrFloatBitWidth dst_element_ty then
           (if src_element_ty = IntegerType 1 then Inr (ExtUIOp dst_ty v)
            else Inr (ExtSIOp dst_ty v))
         else Inr (TruncIOp dst_ty v))
      else if isIntegerType src_element_ty \<and> isFloatType dst_element_ty then
        (if src_element_ty = IntegerType 1 then Inr (UIToFPOp dst_ty v)
         else Inr (SIToFPOp dst_ty v))
      else if isFloatType src_element_ty \<and> isIntegerType dst_element_ty then
        (if dst_element_ty = IntegerType 1 then
           andThen (ZerosLike v) (\<lambda>zeros. Inr (CmpFOp UNE v zeros))
         else Inr (FPToSIOp dst_ty v))
      else Inl (Fatal ''Type conversion not supported''))"
  by pat_completeness auto
termination
  by (relation "measure (\<lambda>(v, dst).
        (if getElementTypeOrSelf (getType v) = BFloat16Type then 2 else 0)
        + (if dst = BFloat16Type then 1 else 0))")
     (auto simp: getElementTypeOrSelf_def clone_def split: Type.splits)

definition Splat :: "Value \<Rightarrow> int list \<Rightarrow> Value" where
  "Splat v shp = SplatOp (RankedTensorType shp (getType v)) v"

definition Range :: "int \<Rightarrow> Value" where
  "Range limit = MakeRangeOp (RankedTensorType [limit] (IntegerType 32)) 0 limit"

definition AddPtr :: "Value \<Rightarrow> Value \<Rightarrow> Value" where
  "AddPtr ptr offset = AddPtrOp (getType ptr) ptr offset"

definition EmitParameterLoad :: "Value \<Rightarrow> int list \<Rightarrow> Value" where
  "EmitParameterLoad pointer boundary_checks =
     (if isTensorPointerType (getType pointer) then
        (let padding = (if boundary_checks \<noteq> [] then Some PAD_ZERO else None) in
         LoadOp pointer boundary_checks padding CacheModifier_NONE EvictionPolicy_NORMAL False)
      else
        Splat (LoadOp pointer [] None CacheModifier_NONE EvictionPolicy_NORMAL False) [])"

text \<open>
  \<^verbatim>\<open>ScalarConstantValue\<close> checks that the instruction is a scalar constant and
  converts its literal; \<^verbatim>\<open>EmitConstant\<close> creates the constant at the Triton type.
\<close>

definition ScalarConstantValue :: "HloInstruction \<Rightarrow> Literal StatusOr" where
  "ScalarConstantValue instr =
     andThen (CHECK (opcode instr = kConstant \<and> dimensions (shape instr) = [])
                ''hlo_query::IsScalarConstant(&instr)'') (\<lambda>_.
     Inr (literal (attributes instr)))"

definition IsInteger :: "Shape \<Rightarrow> bool" where
  "IsInteger s = (element_type s \<in> {S8, S16, S32, S64, U8, U16, U32, U64})"

definition EmitConstant :: "HloInstruction \<Rightarrow> Value StatusOr" where
  "EmitConstant constant =
     andThen (TritonType (element_type (shape constant))) (\<lambda>ty.
     andThen (ScalarConstantValue constant) (\<lambda>v.
     if IsInteger (shape constant) then
       andThen (to_int64 v) (\<lambda>i. CreateConst ty (IntLiteral i))
     else CreateConst ty (FpLiteral (to_double v))))"

subsection \<open>Block pointers\<close>

record DimProperties =
  index :: int
  pid :: Value
  block_size :: int
  split_value :: int

record Side =
  scope :: Scope
  tiled_dims :: "DimProperties list"
  batch_dim_idx :: "int option"

text \<open>
  \<^verbatim>\<open>EmitMultiSelect\<close>: the loop runs over \<open>i = 0, ..., choices.size() - 2\<close> and
  wraps the result so far in one select per limit.
\<close>

definition EmitMultiSelect :: "Value \<Rightarrow> Value list \<Rightarrow> Value list \<Rightarrow> Value StatusOr" where
  "EmitMultiSelect idx limits choices =
     andThen (TF_RET_CHECK (int (length choices) - 1 = int (length limits))
                ''choices.size() - 1 == limits.size()'') (\<lambda>_.
     Inr (fold (\<lambda>i result. SelectOp (CmpIOp slt idx (limits ! i)) result (choices ! (i + 1)))
            [0 ..< length choices - 1] (choices ! 0)))"

text \<open>
  \<^verbatim>\<open>kUncompilableFusion\<close> is a string constant declared in another file; only its use
  as the payload key matters here.
\<close>

definition kUncompilableFusion :: string where
  "kUncompilableFusion = ''__uncompilable_fusion''"

definition UncompilableMatmul :: "string \<Rightarrow> Status" where
  "UncompilableMatmul explanation =
     SetPayload (CancelledError explanation) kUncompilableFusion explanation"

text \<open>
  The members of \<^verbatim>\<open>MatMulEmitterHelper\<close> that \<^verbatim>\<open>EmitTensorPointer\<close> reads;
  the member \<^verbatim>\<open>dims_\<close> is the field \<open>this_dims\<close>, and so on.
\<close>

record MatMulEmitterHelper =
  this_index_ty :: Type
  this_analysis :: TritonFusionAnalysis
  this_dims :: MatMulDims
  this_launch_config :: MatMulLaunchConfig

definition Cst32 :: "int \<Rightarrow> Value" where
  "Cst32 v = ConstantOp (IntegerAttr (IntegerType 32) (int32 v))"

definition Cst64 :: "int \<Rightarrow> Value" where
  "Cst64 v = ConstantOp (IntegerAttr (IntegerType 64) (int64 v))"

definition Cst :: "MatMulEmitterHelper \<Rightarrow> int \<Rightarrow> Value StatusOr" where
  "Cst this v = CreateConst (this_index_ty this) (IntLiteral v)"

definition ConvertScalar :: "MatMulEmitterHelper \<Rightarrow> Value \<Rightarrow> Value" where
  "ConvertScalar this v =
     (if getIntOrFloatBitWidth (this_index_ty this) = 64 then ExtSIOp (this_index_ty this) v else v)"

text \<open>The vectors that \<^verbatim>\<open>EmitTensorPointer\<close> fills, one entry per tiled dimension.\<close>

record TensorPointerParts =
  bounds :: "Value list"
  strides :: "Value list"
  tensor_offsets :: "Value list"
  block_dims :: "int list"
  dim_order :: "int list"
  block_offsets :: "Value list"
  boundary_checks :: "int list"

text \<open>
  The loop of the concatenation branch over all operands but the last: one boundary
  per operand, or the uncompilable-fusion status at the first operand whose sliced
  count is not a multiple of the block size.
\<close>

fun concat_boundaries_loop ::
  "TritonFusionAnalysis \<Rightarrow> Scope \<Rightarrow> int \<Rightarrow> int \<Rightarrow> HloInstruction list \<Rightarrow> Value list \<Rightarrow>
   Value list StatusOr" where
  "concat_boundaries_loop analysis sc concat_dim_idx bs [] acc = Inr acc"
| "concat_boundaries_loop analysis sc concat_dim_idx bs (opnd # rest) acc =
     andThen (deref (IterSpec analysis sc (unique_id opnd) concat_dim_idx)) (\<lambda>spec.
     andThen (at_index spec 0) (\<lambda>fragment.
     andThen (cpp_rem (sliced_count fragment) bs) (\<lambda>r.
     if r \<noteq> 0 then
       Inl (Error (UncompilableMatmul ''Operand is not divisible by the block size.''))
     else
       concat_boundaries_loop analysis sc concat_dim_idx bs rest
         (acc @ [Cst32 (int64 (int64 (- slice_start fragment) + sliced_count fragment))]))))"

text \<open>The per-input vectors of \<^verbatim>\<open>add_dim\<close>: strides, offsets, bounds and the specs.\<close>

fun add_dim_inputs ::
  "TritonFusionAnalysis \<Rightarrow> Scope \<Rightarrow> int \<Rightarrow> Value \<Rightarrow> HloInstruction list \<Rightarrow>
   (DimIterationSpec list \<times> Value list \<times> Value list \<times> Value list) \<Rightarrow>
   (DimIterationSpec list \<times> Value list \<times> Value list \<times> Value list) StatusOr" where
  "add_dim_inputs analysis sc idx pid_offset [] acc = Inr acc"
| "add_dim_inputs analysis sc idx pid_offset (input # rest)
       (specs, input_strides, input_offsets, input_bounds) =
     andThen (deref (IterSpec analysis sc (unique_id input) idx)) (\<lambda>spec.
     andThen (at_index spec 0) (\<lambda>fragment.
     add_dim_inputs analysis sc idx pid_offset rest
       (specs @ [spec],
        input_strides @ [Cst64 (stride fragment)],
        input_offsets @ [AddIOp pid_offset (Cst32 (slice_start fragment))],
        input_bounds @ [Cst64 (count fragment)])))"

definition add_dim ::
  "MatMulEmitterHelper \<Rightarrow> HloInstruction \<Rightarrow> Side \<Rightarrow> int \<Rightarrow> Value list \<Rightarrow> Value \<Rightarrow>
   DimProperties \<Rightarrow> TensorPointerParts \<Rightarrow> TensorPointerParts StatusOr" where
  "add_dim this hlo side concat_dim_idx concat_boundaries concat_dim_pid_offset
       properties parts =
     (if IterSpec (this_analysis this) (scope side) (unique_id hlo) (index properties) = None
      then Inr parts
      else
       let pid_offset =
             (if pid properties = NullValue then Cst32 0
              else MulIOp (pid properties) (Cst32 (block_size properties)));
           inputs = (if opcode hlo = kConcatenate then operands hlo else [hlo])
       in
       andThen (add_dim_inputs (this_analysis this) (scope side) (index properties) pid_offset
                  inputs ([], [], [], []))
         (\<lambda>(specs, input_strides, input_offsets, input_bounds).
       andThen (EmitMultiSelect concat_dim_pid_offset concat_boundaries input_strides)
         (\<lambda>stride_value.
       let parts1 = parts\<lparr>strides := strides parts @ [stride_value]\<rparr> in
       andThen
         (if index properties = concat_dim_idx then
            andThen (EmitMultiSelect pid_offset concat_boundaries input_offsets)
              (\<lambda>offset_value.
            andThen (EmitMultiSelect pid_offset concat_boundaries input_bounds)
              (\<lambda>bound_value.
            Inr (parts1\<lparr>block_offsets := block_offsets parts1 @ [offset_value],
                        bounds := bounds parts1 @ [bound_value]\<rparr>)))
          else
            andThen (at_index specs 0) (\<lambda>front.
            andThen (at_index front 0) (\<lambda>fragment.
            andThen
              (if scope side = OUTPUT
                  \<and> index properties = out_lhs_noncontracting_dim_idx (this_dims this)
                  \<and> length front = 1
                  \<and> lhs_noncontracting_split (this_dims this) \<noteq> None
               then
                 andThen (deref (lhs_noncontracting_split (this_dims this))) (\<lambda>split.
                 andThen (cpp_div (count fragment) split) (\<lambda>q. Inr (int64 q)))
               else Inr (count fragment)) (\<lambda>cnt.
            let parts2 = parts1\<lparr>block_offsets := block_offsets parts1 @ [pid_offset],
                                bounds := bounds parts1 @ [Cst64 cnt]\<rparr>
            in
            andThen (cpp_rem cnt (int32 (block_size properties * split_value properties)))
              (\<lambda>r.
            if r \<noteq> 0 then
              Inr (parts2\<lparr>boundary_checks :=
                     boundary_checks parts2 @ [int32 (int (length (bounds parts2)) - 1)]\<rparr>)
            else Inr parts2))))) (\<lambda>parts3.
       andThen (at_index specs 0) (\<lambda>front.
       andThen (at_index front 0) (\<lambda>fragment.
       Inr (parts3\<lparr>tensor_offsets := tensor_offsets parts3 @ [Cst32 (slice_start fragment)],
                   block_dims := block_dims parts3 @ [block_size properties],
                   dim_order := int (length (dim_order parts3)) # dim_order parts3\<rparr>)))))))"

fun add_dims ::
  "MatMulEmitterHelper \<Rightarrow> HloInstruction \<Rightarrow> Side \<Rightarrow> int \<Rightarrow> Value list \<Rightarrow> Value \<Rightarrow>
   DimProperties list \<Rightarrow> TensorPointerParts \<Rightarrow> TensorPointerParts StatusOr" where
  "add_dims this hlo side concat_dim_idx concat_boundaries concat_dim_pid_offset [] parts =
     Inr parts"
| "add_dims this hlo side concat_dim_idx concat_boundaries concat_dim_pid_offset
       (properties # rest) parts =
     andThen (add_dim this hlo side concat_dim_idx concat_boundaries concat_dim_pid_offset
                properties parts) (\<lambda>parts'.
     add_dims this hlo side concat_dim_idx concat_boundaries concat_dim_pid_offset rest parts')"

text \<open>
  \<^verbatim>\<open>get_batch_stride\<close>: the stride constant, with \<^verbatim>\<open>offset_batch\<close> and
  \<^verbatim>\<open>has_batch_offset\<close> passed in and returned.
\<close>

definition get_batch_stride ::
  "MatMulEmitterHelper \<Rightarrow> Side \<Rightarrow> HloInstruction \<Rightarrow> int \<times> bool \<Rightarrow>
   (Value \<times> int \<times> bool) StatusOr" where
  "get_batch_stride this side hlo_param st =
     (let offset_batch = fst st; has_batch_offset = snd st in
      andThen
        (if scope side \<noteq> RHS \<and> lhs_noncontracting_split (this_dims this) \<noteq> None then
           andThen (at_index (tiled_dims side) 0) (\<lambda>dim0.
           case IterSpec (this_analysis this) (scope side) (unique_id hlo_param) (index dim0) of
             None \<Rightarrow> Inr (0, offset_batch)
           | Some spec \<Rightarrow>
               andThen
                 (if length spec > 1 then
                    andThen (at_index spec 1) (\<lambda>major. Inr (stride major))
                  else
                    andThen (at_index spec 0) (\<lambda>minor.
                    andThen (deref (lhs_noncontracting_split (this_dims this))) (\<lambda>split.
                    andThen (cpp_div (count minor) split) (\<lambda>q.
                    Inr (int64 (stride minor * int64 q)))))) (\<lambda>stride_batch.
               andThen (TF_RET_CHECK (stride_batch \<noteq> 0) ''stride_batch != 0'') (\<lambda>_.
               Inr (stride_batch, offset_batch))))
         else
           (case batch_dim_idx side of
              None \<Rightarrow> Inr (0, offset_batch)
            | Some batch_idx \<Rightarrow>
                (case IterSpec (this_analysis this) (scope side) (unique_id hlo_param) batch_idx of
                   None \<Rightarrow> Inr (0, offset_batch)
                 | Some spec \<Rightarrow>
                     andThen (at_index spec 0) (\<lambda>fragment.
                     andThen (TF_RET_CHECK (stride fragment \<noteq> 0) ''stride_batch != 0'') (\<lambda>_.
                     Inr (stride fragment, slice_start fragment))))))
        (\<lambda>(stride_batch, offset_batch').
      andThen (Cst this stride_batch) (\<lambda>c.
      Inr (c, offset_batch', has_batch_offset \<or> stride_batch \<noteq> 0))))"

fun get_batch_strides ::
  "MatMulEmitterHelper \<Rightarrow> Side \<Rightarrow> HloInstruction list \<Rightarrow> Value list \<Rightarrow> int \<times> bool \<Rightarrow>
   (Value list \<times> int \<times> bool) StatusOr" where
  "get_batch_strides this side [] acc st = Inr (acc, st)"
| "get_batch_strides this side (opnd # rest) acc st =
     andThen (get_batch_stride this side opnd st) (\<lambda>(op_stride, offset_batch, has_offset).
     get_batch_strides this side rest (acc @ [op_stride]) (offset_batch, has_offset))"

definition EmitTensorPointer ::
  "MatMulEmitterHelper \<Rightarrow> HloInstruction \<Rightarrow> Side \<Rightarrow> Value list \<Rightarrow> Value \<Rightarrow> int list \<Rightarrow>
   (Value \<times> int list) StatusOr" where
  "EmitTensorPointer this hlo side bases pid_k checks =
     andThen
       (if opcode hlo = kConcatenate then
          (let concat_dim_idx =
                 (if scope side = LHS then lhs_noncontracting_dim_idx (this_dims this)
                  else rhs_noncontracting_dim_idx (this_dims this))
           in
           case find (\<lambda>d. index d = concat_dim_idx) (tiled_dims side) of
             None \<Rightarrow> Inl (Fatal ''Missing dimension.'')
           | Some properties \<Rightarrow>
               andThen (TF_RET_CHECK (int (length bases) = operand_count hlo)
                          ''bases.size() == hlo->operand_count()'') (\<lambda>_.
               andThen (concat_boundaries_loop (this_analysis this) (scope side) concat_dim_idx
                          (block_size properties) (butlast (operands hlo)) [])
                 (\<lambda>concat_boundaries.
               let concat_dim_pid_offset =
                     MulIOp (pid properties) (Cst32 (block_size properties))
               in
               andThen (EmitMultiSelect concat_dim_pid_offset concat_boundaries bases)
                 (\<lambda>base.
               Inr (concat_dim_idx, concat_boundaries, concat_dim_pid_offset, base)))))
        else
          andThen (at_index bases 0) (\<lambda>base. Inr (- 1, [], NullValue, base)))
       (\<lambda>(concat_dim_idx, concat_boundaries, concat_dim_pid_offset, base).
     andThen (add_dims this hlo side concat_dim_idx concat_boundaries concat_dim_pid_offset
                (tiled_dims side)
                \<lparr>bounds = [], strides = [], tensor_offsets = [], block_dims = [],
                 dim_order = [], block_offsets = [], boundary_checks = checks\<rparr>) (\<lambda>parts.
     andThen
       (if opcode hlo = kConcatenate then
          andThen (get_batch_strides this side (operands hlo) [] (0, False))
            (\<lambda>(batch_strides, offset_batch, has_batch_offset).
          andThen (EmitMultiSelect concat_dim_pid_offset concat_boundaries batch_strides)
            (\<lambda>batch_stride. Inr (batch_stride, offset_batch, has_batch_offset)))
        else get_batch_stride this side hlo (0, False))
       (\<lambda>(batch_stride, offset_batch, has_batch_offset).
     andThen
       (if has_batch_offset then
          (let pid_batch = GetProgramIdOp (batch_program_id_dim (this_launch_config this)) in
           andThen (Cst this offset_batch) (\<lambda>c.
           Inr (AddPtr base (MulIOp (AddIOp c (ConvertScalar this pid_batch)) batch_stride))))
        else Inr base) (\<lambda>base1.
     andThen
       (case out_split_k_dim_idx (this_dims this) of
          None \<Rightarrow> Inr base1
        | Some split_k_idx \<Rightarrow>
            (case IterSpec (this_analysis this) OUTPUT (unique_id hlo) split_k_idx of
               None \<Rightarrow> Inr base1
             | Some spec \<Rightarrow>
                 andThen (TF_RET_CHECK (pid_k \<noteq> NullValue) ''pid_k != nullptr'') (\<lambda>_.
                 andThen (at_index spec 0) (\<lambda>fragment.
                 andThen (Cst this (stride fragment)) (\<lambda>c.
                 Inr (AddPtr base1 (MulIOp (ConvertScalar this pid_k) c))))))) (\<lambda>base2.
     if block_dims parts = [] then Inr (base2, boundary_checks parts)
     else
       (let tensor_ptr = MakeTensorPtrOp base2 (bounds parts) (strides parts)
                           (tensor_offsets parts) (block_dims parts) (dim_order parts)
        in
        Inr (AdvanceOp (getType tensor_ptr) tensor_ptr (block_offsets parts),
             boundary_checks parts)))))))"

subsection \<open>Reduce\<close>

text \<open>
  The loop of \<^verbatim>\<open>EmitReduce\<close> over the called computation: parameters are bound to
  the two arguments of the reducer block, every other instruction is to be emitted.
\<close>

fun reducer_instructions ::
  "HloInstruction list \<Rightarrow> HloInstruction list \<times> (nat \<rightharpoonup> Value) \<Rightarrow>
   (HloInstruction list \<times> (nat \<rightharpoonup> Value)) StatusOr" where
  "reducer_instructions [] acc = Inr acc"
| "reducer_instructions (instr # rest) (to_emit, region_values) =
     (if opcode instr = kParameter then
        (let parameter_number = int32 (parameter_number (attributes instr)) in
         andThen (TF_RET_CHECK (parameter_number < 2) ''parameter_number < 2'') (\<lambda>_.
         andThen (TF_RET_CHECK (region_values (unique_id instr) = None)
                    ''region_values.insert(...).second'') (\<lambda>_.
         andThen (at_index [BlockArgument 0 Float32Type, BlockArgument 1 Float32Type]
                    parameter_number) (\<lambda>arg.
         reducer_instructions rest
           (to_emit, region_values(unique_id instr \<mapsto> arg))))))
      else reducer_instructions rest (to_emit @ [instr], region_values))"

text \<open>
  \<^verbatim>\<open>EmitReduce\<close>. \<^verbatim>\<open>EmitScope\<close> is declared before this function and defined
  after it; here it is the parameter \<open>EmitScope\<close>, called on the instructions of the
  reducer with the values of its parameters.
\<close>

definition EmitReduce ::
  "(HloInstruction list \<Rightarrow> (nat \<rightharpoonup> Value) \<Rightarrow> Value StatusOr) \<Rightarrow> HloInstruction \<Rightarrow> Value \<Rightarrow>
   Value StatusOr" where
  "EmitReduce EmitScope hlo_reduce input =
     andThen (CHECK (isShapedType (getType input)) ''mlir::cast<TensorValue>(input)'') (\<lambda>_.
     let input_shape = getShape (getType input) in
     andThen (TF_RET_CHECK (operand_count hlo_reduce = 2)
                ''hlo_reduce.operand_count() == 2'') (\<lambda>_.
     andThen (TF_RET_CHECK (length (reduce_dimensions (attributes hlo_reduce)) = 1)
                ''hlo_reduce.dimensions().size() == 1'') (\<lambda>_.
     andThen (at_index (reduce_dimensions (attributes hlo_reduce)) 0) (\<lambda>dimension0.
     andThen (operand hlo_reduce 0) (\<lambda>operand0.
     andThen (TF_RET_CHECK (dimension0 = int64 (rank (shape operand0) - 1))
                ''hlo_reduce.dimensions(0) == hlo_reduce.operand(0)->shape().rank() - 1'')
       (\<lambda>_.
     andThen (last_element input_shape) (\<lambda>back.
     let block_row = int32 back in
     andThen (dimensions_minor (shape operand0) 0) (\<lambda>minor.
     let row_len = int32 minor in
     andThen (TF_RET_CHECK (block_row \<ge> row_len) ''block_row >= row_len'') (\<lambda>_.
     andThen (operand hlo_reduce 1) (\<lambda>opnd.
     andThen
       (if opcode opnd = kConvert then
          andThen (operand opnd 0) (\<lambda>constant.
          andThen (TF_RET_CHECK (opcode constant = kConstant)
                     ''operand->operand(0)->opcode() == HloOpcode::kConstant'') (\<lambda>_.
          andThen (TF_RET_CHECK (element_type (shape constant) = BF16)
                     ''operand->operand(0)->shape().element_type() == BF16'') (\<lambda>_.
          let dest_ty = element_type (shape opnd) in
          andThen (TF_RET_CHECK (dest_ty = F32) ''dest_ty == F32'') (\<lambda>_.
          andThen (EmitConstant constant) (\<lambda>neutral.
          andThen (TritonType dest_ty) (\<lambda>ty.
          Cast neutral ty))))))
        else
          andThen (TF_RET_CHECK (opcode opnd = kConstant)
                     ''operand->opcode() == HloOpcode::kConstant'') (\<lambda>_.
          EmitConstant opnd)) (\<lambda>neutral.
     andThen
       (if block_row \<noteq> row_len then
          andThen (CreateConst (IntegerType 32) (IntLiteral row_len)) (\<lambda>row_len_const.
          let mask = CmpIOp slt (Range block_row) (Splat row_len_const [block_row]) in
          Inr (SelectOp mask input (Splat neutral input_shape)))
        else Inr input) (\<lambda>masked_input.
     andThen (Cast masked_input Float32Type) (\<lambda>casted_input.
     andThen (reducer_instructions (to_apply hlo_reduce) ([], Map.empty))
       (\<lambda>(to_emit, region_values).
     andThen (TF_RET_CHECK (to_emit \<noteq> []) ''!to_emit.empty()'') (\<lambda>_.
     andThen (EmitScope to_emit region_values) (\<lambda>reducer_result.
     let reduction = ReduceOp [casted_input] (int32 (int (length input_shape) - 1))
                       reducer_result;
         result = (if \<not> isShapedType (getType reduction) then Splat reduction []
                   else reduction)
     in
     andThen (TritonType (element_type (shape hlo_reduce))) (\<lambda>ty.
     Cast result ty)))))))))))))))))"

subsection \<open>The bf16 dot emulations\<close>

definition TruncateToBF16TowardsZero :: "Value \<Rightarrow> Value StatusOr" where
  "TruncateToBF16TowardsZero input =
     andThen (CHECK (isShapedType (getType input)) ''input_type'') (\<lambda>_.
     let input_type = getType input;
         input_type_as_i32 = clone input_type (IntegerType 32);
         input_as_i32 = BitcastOp input_type_as_i32 input
     in
     andThen (CreateConstTensor (IntegerType 32) (IntLiteral 4294901760) (getShape input_type))
       (\<lambda>mask.
     let high_bits = AndIOp input_as_i32 mask in
     Inr (BitcastOp input_type high_bits)))"

definition SoftMiddleEight :: "Value \<Rightarrow> Value StatusOr" where
  "SoftMiddleEight input =
     andThen (TruncateToBF16TowardsZero input) (\<lambda>high. Inr (SubFOp input high))"

definition SoftLowEight :: "Value \<Rightarrow> Value StatusOr" where
  "SoftLowEight input = andThen (SoftMiddleEight input) SoftMiddleEight"

definition RoundToBF16 :: "Value \<Rightarrow> Value StatusOr" where
  "RoundToBF16 input = Cast input BFloat16Type"

definition CheckFiniteF32 :: "Value \<Rightarrow> Value StatusOr" where
  "CheckFiniteF32 input =
     andThen (CHECK (isShapedType (getType input)) ''mlir::cast<ShapedType>(input.getType())'')
       (\<lambda>_.
     andThen (CreateConstTensor Float32Type (FpLiteral PosInf) (getShape (getType input)))
       (\<lambda>positive_inf.
     let abs_input = AbsFOp input in
     Inr (CmpFOp OGT positive_inf abs_input)))"

definition bf16_dot :: "Value \<Rightarrow> Value \<Rightarrow> Value \<Rightarrow> Value" where
  "bf16_dot lhs_bf16 rhs_bf16 accumulator = DotOp lhs_bf16 rhs_bf16 accumulator False 0"

definition check_f32_element_type :: "Value \<Rightarrow> string \<Rightarrow> unit StatusOr" where
  "check_f32_element_type v text =
     andThen (CHECK (isShapedType (getType v)) ''mlir::cast<ShapedType>'') (\<lambda>_.
     TF_RET_CHECK (getElementTypeOrSelf (getType v) = Float32Type) text)"

definition Emit6xBfloat16MatMul :: "Value \<Rightarrow> Value \<Rightarrow> Value \<Rightarrow> Value StatusOr" where
  "Emit6xBfloat16MatMul lhs rhs acc =
     andThen (check_f32_element_type lhs ''lhs element type == f32'') (\<lambda>_.
     andThen (check_f32_element_type rhs ''rhs element type == f32'') (\<lambda>_.
     andThen (check_f32_element_type acc ''acc element type == f32'') (\<lambda>_.
     andThen (andThen (TruncateToBF16TowardsZero lhs) RoundToBF16) (\<lambda>lhs_high.
     andThen (andThen (andThen (SoftMiddleEight lhs) TruncateToBF16TowardsZero) RoundToBF16)
       (\<lambda>lhs_middle.
     andThen (andThen (andThen (SoftLowEight lhs) TruncateToBF16TowardsZero) RoundToBF16)
       (\<lambda>lhs_low.
     andThen (andThen (TruncateToBF16TowardsZero rhs) RoundToBF16) (\<lambda>rhs_high.
     andThen (andThen (andThen (SoftMiddleEight rhs) TruncateToBF16TowardsZero) RoundToBF16)
       (\<lambda>rhs_middle.
     andThen (andThen (andThen (SoftLowEight rhs) TruncateToBF16TowardsZero) RoundToBF16)
       (\<lambda>rhs_low.
     andThen (ZerosLike acc) (\<lambda>local_acc.
     let result1 = bf16_dot lhs_middle rhs_middle local_acc;
         result2 = bf16_dot lhs_low rhs_high result1;
         result3 = bf16_dot lhs_high rhs_low result2;
         result4 = bf16_dot lhs_middle rhs_high result3;
         result5 = bf16_dot lhs_high rhs_middle result4
     in
     andThen (CheckFiniteF32 result5) (\<lambda>is_finite.
     andThen (ZerosLike result5) (\<lambda>zeros.
     let result6 = SelectOp is_finite result5 zeros;
         result7 = bf16_dot lhs_high rhs_high result6
     in
     Inr (AddFOp acc result7)))))))))))))"

definition Emit3xBfloat16MatMul :: "Value \<Rightarrow> Value \<Rightarrow> Value \<Rightarrow> Value StatusOr" where
  "Emit3xBfloat16MatMul lhs rhs acc =
     andThen (check_f32_element_type lhs ''lhs element type == f32'') (\<lambda>_.
     andThen (check_f32_element_type rhs ''rhs element type == f32'') (\<lambda>_.
     andThen (check_f32_element_type acc ''acc element type == f32'') (\<lambda>_.
     andThen (andThen (TruncateToBF16TowardsZero lhs) RoundToBF16) (\<lambda>lhs_high.
     andThen (andThen (SoftMiddleEight lhs) RoundToBF16) (\<lambda>lhs_low.
     andThen (andThen (TruncateToBF16TowardsZero rhs) RoundToBF16) (\<lambda>rhs_high.
     andThen (andThen (SoftMiddleEight rhs) RoundToBF16) (\<lambda>rhs_low.
     andThen (ZerosLike acc) (\<lambda>local_acc.
     let result1 = bf16_dot lhs_low rhs_high local_acc;
         result2 = bf16_dot lhs_high rhs_low result1
     in
     andThen (CheckFiniteF32 result2) (\<lambda>is_finite.
     andThen (ZerosLike result2) (\<lambda>zeros.
     let result3 = SelectOp is_finite result2 zeros;
         result4 = bf16_dot lhs_high rhs_high result3
     in
     Inr (AddFOp acc result4)))))))))))"

subsection \<open>EmitMatMul\<close>

text \<open>
  \<^verbatim>\<open>EmitMatMul\<close> from its entry to the remapped program ids (the statements before
  the accumulator type is chosen). The record holds what these statements compute,
  among them the \<^verbatim>\<open>MatMulEmitterHelper\<close> that is constructed from the index type,
  the dimensions, the launch configuration and the analysis and on which every later
  \<^verbatim>\<open>EmitTensorPointer\<close> is called with \<open>pid_k\<close>; the loop, the epilogue and the
  stores that follow are not part of the model.
\<close>

record MatMulProgram =
  use_64bit_indexing :: bool
  index_ty :: Type
  matmul_dims :: MatMulDims
  launch_config :: MatMulLaunchConfig
  emitter :: MatMulEmitterHelper
  width :: int
  pid_nc :: Value
  pid_k :: Value
  group_id :: Value
  first_pid_m :: Value
  group_size :: Value
  pid_m :: Value
  pid_n :: Value

definition c32 :: "int \<Rightarrow> Value" where
  "c32 v = ConstantOp (IntegerAttr (IntegerType 32) (APInt 32 v))"

definition group_m :: int where
  "group_m = 8"

definition EmitMatMul ::
  "TritonFusionAnalysis \<Rightarrow> HloComputation \<Rightarrow> TritonGemmConfig \<Rightarrow> MatMulProgram StatusOr" where
  "EmitMatMul analysis computation config =
     andThen (CheckGemmTilingComplexityHeuristic config) (\<lambda>_.
     andThen (deref (GetFirstInstructionWithOpcode computation kDot)) (\<lambda>dot_instr.
     let is_sparse = (sparse_operands (attributes dot_instr) > 0) in
     andThen (operand dot_instr 0) (\<lambda>operand0.
     andThen (operand dot_instr 1) (\<lambda>operand1.
     let use_64bit =
           (ElementsIn (shape operand0) > INT_MAX
            \<or> ElementsIn (shape operand1) > INT_MAX
            \<or> int64 (ElementsIn (shape dot_instr) * split_k config) > INT_MAX);
         idx_ty = IntegerType (if use_64bit then 64 else 32);
         root = root_instruction computation
     in
     andThen (TF_RET_CHECK (\<not> IsTuple (shape root)) ''!root->shape().IsTuple()'') (\<lambda>_.
     andThen (ValidateMatMulConfig config dot_instr) (\<lambda>_.
     andThen (Create config computation dot_instr analysis) (\<lambda>dims.
     andThen (MakeMatMulLaunchConfig config dot_instr dims) (\<lambda>config_launch.
     let emitter = \<lparr>this_index_ty = idx_ty, this_analysis = analysis, this_dims = dims,
                     this_launch_config = config_launch\<rparr>;
         w = int64 (group_m * grid_n config_launch);
         nc = GetProgramIdOp (noncontracting_program_id_dim config_launch);
         k = (if split_k config > 1 then GetProgramIdOp Z else NullValue);
         gid = DivSIOp nc (c32 w);
         group_m_op = c32 group_m;
         first = MulIOp gid group_m_op;
         sub0 = SubIOp (c32 (grid_m config_launch)) first;
         gsize = SelectOp (CmpIOp slt sub0 group_m_op) sub0 group_m_op;
         m = AddIOp first (RemSIOp nc gsize);
         n = DivSIOp (RemSIOp nc (c32 w)) gsize
     in
     Inr \<lparr>use_64bit_indexing = use_64bit, index_ty = idx_ty, matmul_dims = dims,
          launch_config = config_launch, emitter = emitter, width = w, pid_nc = nc,
          pid_k = k,
          group_id = gid, first_pid_m = first, group_size = gsize, pid_m = m,
          pid_n = n\<rparr>))))))))"

subsection \<open>The value of an emitted term at one lane\<close>

text \<open>
  What an emitted term computes at lane \<open>i\<close> (the position along the minormost axis
  of a tile; a scalar has the same value at every lane). Integer operations wrap in
  the width of their type and a division by zero has no value. Program ids, block
  arguments, loads, dots and every other operation that is not interpreted take their
  value from the environment \<open>\<rho>\<close>. Floating-point values are only compared and
  selected, never rounded.
\<close>

datatype LaneValue = IntV int | BoolV bool | FpV FpValue

fun fabs :: "FpValue \<Rightarrow> FpValue" where
  "fabs (Finite r) = Finite \<bar>r\<bar>"
| "fabs PosInf = PosInf"
| "fabs NegInf = PosInf"
| "fabs NaN = NaN"

text \<open>\<^verbatim>\<open>OGT\<close>: ordered and greater than; false when an operand is NaN.\<close>

fun fcmp_ogt :: "FpValue \<Rightarrow> FpValue \<Rightarrow> bool" where
  "fcmp_ogt NaN b = False"
| "fcmp_ogt a NaN = False"
| "fcmp_ogt a PosInf = False"
| "fcmp_ogt PosInf b = True"
| "fcmp_ogt NegInf b = False"
| "fcmp_ogt (Finite x) NegInf = True"
| "fcmp_ogt (Finite x) (Finite y) = (x > y)"

text \<open>\<^verbatim>\<open>UNE\<close>: unordered or not equal.\<close>

definition fcmp_une :: "FpValue \<Rightarrow> FpValue \<Rightarrow> bool" where
  "fcmp_une a b = (a = NaN \<or> b = NaN \<or> a \<noteq> b)"

definition isFinite :: "FpValue \<Rightarrow> bool" where
  "isFinite v = (case v of Finite r \<Rightarrow> True | _ \<Rightarrow> False)"

definition bits :: "Value \<Rightarrow> nat" where
  "bits v = getIntOrFloatBitWidth (getElementTypeOrSelf (getType v))"

definition int_binop ::
  "nat \<Rightarrow> (int \<Rightarrow> int \<Rightarrow> int option) \<Rightarrow> LaneValue option \<Rightarrow> LaneValue option \<Rightarrow>
   LaneValue option" where
  "int_binop w f a b =
     (case (a, b) of
        (Some (IntV x), Some (IntV y)) \<Rightarrow>
          (case f x y of None \<Rightarrow> None | Some r \<Rightarrow> Some (IntV (APInt w r)))
      | _ \<Rightarrow> None)"

definition attr_value :: "Attribute \<Rightarrow> LaneValue" where
  "attr_value a =
     (case a of IntegerAttr t v \<Rightarrow> IntV v | FloatAttr t f \<Rightarrow> FpV f
      | DenseIntElementsAttr t v \<Rightarrow> IntV v | DenseFPElementsAttr t f \<Rightarrow> FpV f)"

fun lane :: "(Value \<Rightarrow> LaneValue option) \<Rightarrow> nat \<Rightarrow> Value \<Rightarrow> LaneValue option" where
  "lane \<rho> i (ConstantOp a) = Some (attr_value a)"
| "lane \<rho> i (AddIOp a b) =
     int_binop (bits a) (\<lambda>x y. Some (x + y)) (lane \<rho> i a) (lane \<rho> i b)"
| "lane \<rho> i (SubIOp a b) =
     int_binop (bits a) (\<lambda>x y. Some (x - y)) (lane \<rho> i a) (lane \<rho> i b)"
| "lane \<rho> i (MulIOp a b) =
     int_binop (bits a) (\<lambda>x y. Some (x * y)) (lane \<rho> i a) (lane \<rho> i b)"
| "lane \<rho> i (DivSIOp a b) =
     int_binop (bits a) (\<lambda>x y. if y = 0 then None else Some (x sdiv y))
       (lane \<rho> i a) (lane \<rho> i b)"
| "lane \<rho> i (RemSIOp a b) =
     int_binop (bits a) (\<lambda>x y. if y = 0 then None else Some (x smod y))
       (lane \<rho> i a) (lane \<rho> i b)"
| "lane \<rho> i (CmpIOp slt a b) =
     (case (lane \<rho> i a, lane \<rho> i b) of
        (Some (IntV x), Some (IntV y)) \<Rightarrow> Some (BoolV (x < y))
      | _ \<Rightarrow> None)"
| "lane \<rho> i (CmpFOp p a b) =
     (case (lane \<rho> i a, lane \<rho> i b) of
        (Some (FpV x), Some (FpV y)) \<Rightarrow>
          Some (BoolV (case p of OGT \<Rightarrow> fcmp_ogt x y | UNE \<Rightarrow> fcmp_une x y))
      | _ \<Rightarrow> None)"
| "lane \<rho> i (AbsFOp a) =
     (case lane \<rho> i a of Some (FpV x) \<Rightarrow> Some (FpV (fabs x)) | _ \<Rightarrow> None)"
| "lane \<rho> i (SelectOp c a b) =
     (case lane \<rho> i c of
        Some (BoolV t) \<Rightarrow> if t then lane \<rho> i a else lane \<rho> i b
      | _ \<Rightarrow> None)"
| "lane \<rho> i (ExtSIOp t a) = lane \<rho> i a"
| "lane \<rho> i (SplatOp t a) = lane \<rho> i a"
| "lane \<rho> i (MakeRangeOp t s e) =
     (if s + int i < e then Some (IntV (s + int i)) else None)"
| "lane \<rho> i v = \<rho> v"

subsection \<open>Example programs\<close>

text \<open>
  A dot of two f32 matrices of shape (64, 64) with blocks (32, 32, 32) and one warp,
  and the same dot with the contracting dimension split in two after padding it from
  60 to 64.
\<close>

definition no_attributes :: HloAttributes where
  "no_attributes =
     \<lparr>dot_dims = \<lparr>lhs_contracting_dimensions = [], rhs_contracting_dimensions = [],
                  lhs_batch_dimensions = [], rhs_batch_dimensions = []\<rparr>,
      reduce_dimensions = [], literal = IntLiteral 0, parameter_number = 0,
      sparse_operands = 0\<rparr>"

definition array_shape :: "PrimitiveType \<Rightarrow> int list \<Rightarrow> Shape" where
  "array_shape t ds =
     \<lparr>element_type = t, dimensions = ds,
      minor_to_major = rev (map int [0 ..< length ds])\<rparr>"

definition ex_fragment :: "int \<Rightarrow> int \<Rightarrow> IterationSpecFragment" where
  "ex_fragment s c = \<lparr>stride = s, count = c, slice_start = 0, sliced_count = c\<rparr>"

definition ex_lhs :: HloInstruction where
  "ex_lhs = HloInstruction 0 kParameter (array_shape F32 [64, 64]) [] no_attributes []"

definition ex_rhs :: HloInstruction where
  "ex_rhs = HloInstruction 1 kParameter (array_shape F32 [64, 64]) []
              (no_attributes\<lparr>parameter_number := 1\<rparr>) []"

definition ex_dot :: HloInstruction where
  "ex_dot = HloInstruction 2 kDot (array_shape F32 [64, 64]) [ex_lhs, ex_rhs]
              (no_attributes\<lparr>dot_dims :=
                 \<lparr>lhs_contracting_dimensions = [1], rhs_contracting_dimensions = [0],
                  lhs_batch_dimensions = [], rhs_batch_dimensions = []\<rparr>\<rparr>) []"

definition ex_computation :: HloComputation where
  "ex_computation = \<lparr>instructions = [ex_lhs, ex_rhs, ex_dot], root_instruction = ex_dot\<rparr>"

definition ex_analysis :: TritonFusionAnalysis where
  "ex_analysis =
     \<lparr>IterSpec = (\<lambda>sc hlo d.
        if d = 0 then Some [ex_fragment 64 64]
        else if d = 1 then Some [ex_fragment 1 64]
        else None),
      ScopeParameters = (\<lambda>sc. case sc of LHS \<Rightarrow> [ex_lhs] | RHS \<Rightarrow> [ex_rhs] | _ \<Rightarrow> [])\<rparr>"

definition ex_config :: TritonGemmConfig where
  "ex_config =
     \<lparr>block_m = 32, block_n = 32, block_k = 32, split_k = 1, num_stages = 1,
      num_warps = 1, num_ctas = 1\<rparr>"

definition ex_dims :: MatMulDims where
  "ex_dims =
     \<lparr>out_split_k_dim_idx = None, lhs_batch_dim_idx = None, rhs_batch_dim_idx = None,
      out_batch_dim_idx = None, lhs_noncontracting_split = None,
      lhs_contracting_dim_idx = 1, lhs_noncontracting_dim_idx = 0,
      rhs_contracting_dim_idx = 0, rhs_noncontracting_dim_idx = 1,
      out_lhs_noncontracting_dim_idx = 0, out_rhs_noncontracting_dim_idx = 1,
      dims_m = 64, dims_n = 64, dims_k = 64\<rparr>"

definition ex_split_rhs :: HloInstruction where
  "ex_split_rhs =
     HloInstruction 5 kBitcast (array_shape F32 [2, 32, 64])
       [HloInstruction 4 kPad (array_shape F32 [64, 64])
          [HloInstruction 1 kParameter (array_shape F32 [60, 64]) []
             (no_attributes\<lparr>parameter_number := 1\<rparr>) []]
          no_attributes []]
       no_attributes []"

definition ex_split_lhs :: HloInstruction where
  "ex_split_lhs =
     HloInstruction 3 kBitcast (array_shape F32 [64, 2, 32])
       [HloInstruction 2 kPad (array_shape F32 [64, 64])
          [HloInstruction 0 kParameter (array_shape F32 [64, 60]) [] no_attributes []]
          no_attributes []]
       no_attributes []"

definition ex_split_dot :: HloInstruction where
  "ex_split_dot =
     HloInstruction 6 kDot (array_shape F32 [2, 64, 64]) [ex_split_lhs, ex_split_rhs]
       (no_attributes\<lparr>dot_dims :=
          \<lparr>lhs_contracting_dimensions = [2], rhs_contracting_dimensions = [1],
           lhs_batch_dimensions = [1], rhs_batch_dimensions = [0]\<rparr>\<rparr>) []"

definition ex_split_computation :: HloComputation where
  "ex_split_computation =
     \<lparr>instructions = [ex_split_lhs, ex_split_rhs, ex_split_dot],
      root_instruction = ex_split_dot\<rparr>"

definition ex_split_analysis :: TritonFusionAnalysis where
  "ex_split_analysis =
     \<lparr>IterSpec = (\<lambda>sc hlo d.
        if sc = OUTPUT \<and> d = 0 then Some [ex_fragment 4096 2]
        else if sc = OUTPUT \<and> d = 1 then Some [ex_fragment 64 64]
        else if sc = OUTPUT \<and> d = 2 then Some [ex_fragment 1 64]
        else if sc = LHS \<and> d = 0 then Some [ex_fragment 60 64]
        else None),
      ScopeParameters = (\<lambda>sc. [])\<rparr>"

definition ex_split_config :: TritonGemmConfig where
  "ex_split_config = ex_config\<lparr>split_k := 2\<rparr>"

definition ex_split_dims :: MatMulDims where
  "ex_split_dims =
     \<lparr>out_split_k_dim_idx = Some 0, lhs_batch_dim_idx = None, rhs_batch_dim_idx = None,
      out_batch_dim_idx = None, lhs_noncontracting_split = None,
      lhs_contracting_dim_idx = 2, lhs_noncontracting_dim_idx = 0,
      rhs_contracting_dim_idx = 1, rhs_noncontracting_dim_idx = 2,
      out_lhs_noncontracting_dim_idx = 1, out_rhs_noncontracting_dim_idx = 2,
      dims_m = 64, dims_n = 64, dims_k = 60\<rparr>"

definition ex_big_lhs :: HloInstruction where
  "ex_big_lhs =
     HloInstruction 0 kParameter (array_shape F32 [65536, 65536]) [] no_attributes []"

definition ex_big_rhs :: HloInstruction where
  "ex_big_rhs = HloInstruction 1 kParameter (array_shape F32 [65536, 64]) []
                  (no_attributes\<lparr>parameter_number := 1\<rparr>) []"

definition ex_big_dot :: HloInstruction where
  "ex_big_dot = HloInstruction 2 kDot (array_shape F32 [65536, 64]) [ex_big_lhs, ex_big_rhs]
                  (no_attributes\<lparr>dot_dims :=
                     \<lparr>lhs_contracting_dimensions = [1], rhs_contracting_dimensions = [0],
                      lhs_batch_dimensions = [], rhs_batch_dimensions = []\<rparr>\<rparr>) []"

definition ex_big_computation :: HloComputation where
  "ex_big_computation =
     \<lparr>instructions = [ex_big_lhs, ex_big_rhs, ex_big_dot], root_instruction = ex_big_dot\<rparr>"

definition ex_big_analysis :: TritonFusionAnalysis where
  "ex_big_analysis =
     \<lparr>IterSpec = (\<lambda>sc hlo d.
        if d = 0 then Some [ex_fragment 64 65536]
        else if d = 1 then Some [ex_fragment 1 64]
        else None),
      ScopeParameters = (\<lambda>sc. case sc of LHS \<Rightarrow> [ex_big_lhs] | RHS \<Rightarrow> [ex_big_rhs]
                               | _ \<Rightarrow> [])\<rparr>"

subsection \<open>Vocabulary of the properties\<close>

definition fits_int32 :: "int \<Rightarrow> bool" where
  "fits_int32 v = (- (2 ^ 31) < v \<and> v < 2 ^ 31)"

definition fits_int64 :: "int \<Rightarrow> bool" where
  "fits_int64 v = (- (2 ^ 63) < v \<and> v < 2 ^ 63)"

text \<open>The complexity heuristic as a number, and the condition that computing it in
  \<^verbatim>\<open>int\<close> does not overflow.\<close>

definition heuristic_value :: "TritonGemmConfig \<Rightarrow> int" where
  "heuristic_value c =
     (block_m c * block_n c + (block_m c + block_n c) * block_k c) sdiv num_warps c"

definition heuristic_fits :: "TritonGemmConfig \<Rightarrow> bool" where
  "heuristic_fits c =
     (fits_int32 (block_m c * block_n c) \<and> fits_int32 (block_m c + block_n c)
      \<and> fits_int32 ((block_m c + block_n c) * block_k c)
      \<and> fits_int32 (block_m c * block_n c + (block_m c + block_n c) * block_k c))"

text \<open>The batch size of the launch planner: the split multiplier if present, else the
  output batch extent, else 1.\<close>

definition batch_size_of :: "HloInstruction \<Rightarrow> MatMulDims \<Rightarrow> int" where
  "batch_size_of dot dims =
     (case lhs_noncontracting_split dims of
        Some split \<Rightarrow> split
      | None \<Rightarrow>
          (case out_batch_dim_idx dims of
             Some idx \<Rightarrow> dimensions (shape dot) ! nat idx
           | None \<Rightarrow> 1))"

definition batch_dim_in_range :: "HloInstruction \<Rightarrow> MatMulDims \<Rightarrow> bool" where
  "batch_dim_in_range dot dims =
     (case lhs_noncontracting_split dims of
        Some split \<Rightarrow> True
      | None \<Rightarrow>
          (case out_batch_dim_idx dims of
             Some idx \<Rightarrow> 0 \<le> idx \<and> idx < rank (shape dot)
           | None \<Rightarrow> True))"

definition ceil_div :: "int \<Rightarrow> int \<Rightarrow> int" where
  "ceil_div a b = \<lceil>real_of_int a / real_of_int b\<rceil>"

text \<open>Every failure of a result satisfies a predicate; a failure that is an internal
  status or the end of the process.\<close>

definition fails_with :: "(error \<Rightarrow> bool) \<Rightarrow> 'a StatusOr \<Rightarrow> bool" where
  "fails_with P r = (\<forall>e. r = Inl e \<longrightarrow> P e)"

definition internal_or_fatal :: "error \<Rightarrow> bool" where
  "internal_or_fatal e = (case e of Error st \<Rightarrow> code st = kInternal | Fatal s \<Rightarrow> True)"

text \<open>No intermediate result of the launch planner leaves \<^verbatim>\<open>int64_t\<close>.\<close>

definition launch_arithmetic_fits :: "TritonGemmConfig \<Rightarrow> HloInstruction \<Rightarrow> MatMulDims \<Rightarrow> bool" where
  "launch_arithmetic_fits config dot dims =
     (let gm = ceil_div (dims_m dims) (block_m config);
          gn = ceil_div (dims_n dims) (block_n config);
          batch = batch_size_of dot dims
      in fits_int64 (dims_m dims + block_m config) \<and> fits_int64 (dims_n dims + block_n config)
         \<and> fits_int64 (batch * gm) \<and> fits_int64 (batch * gm * gn) \<and> fits_int64 (gm * gn)
         \<and> fits_int64 (num_warps config * WarpSize))"


definition multi_select_fold :: "Value \<Rightarrow> Value list \<Rightarrow> Value list \<Rightarrow> nat \<Rightarrow> Value" where
  "multi_select_fold idx limits choices k =
     fold (\<lambda>i result. SelectOp (CmpIOp slt idx (limits ! i)) result (choices ! (i + 1)))
       [0 ..< k] (choices ! 0)"


definition ex_bases :: "Value list" where
  "ex_bases = map (\<lambda>n. BlockArgument n (PointerType Float32Type)) [0, 1, 2]"


text \<open>A dot of a (320, 64) matrix with a (64, 64) matrix: ten m-tiles of 32 rows.\<close>

definition ex_tall_lhs :: HloInstruction where
  "ex_tall_lhs = HloInstruction 0 kParameter (array_shape F32 [320, 64]) [] no_attributes []"

definition ex_tall_dot :: HloInstruction where
  "ex_tall_dot = HloInstruction 2 kDot (array_shape F32 [320, 64]) [ex_tall_lhs, ex_rhs]
                   (no_attributes\<lparr>dot_dims :=
                      \<lparr>lhs_contracting_dimensions = [1], rhs_contracting_dimensions = [0],
                       lhs_batch_dimensions = [], rhs_batch_dimensions = []\<rparr>\<rparr>) []"

definition ex_tall_computation :: HloComputation where
  "ex_tall_computation =
     \<lparr>instructions = [ex_tall_lhs, ex_rhs, ex_tall_dot], root_instruction = ex_tall_dot\<rparr>"

definition ex_tall_analysis :: TritonFusionAnalysis where
  "ex_tall_analysis =
     \<lparr>IterSpec = (\<lambda>sc hlo d.
        if d = 0 then Some [ex_fragment 64 320]
        else if d = 1 then Some [ex_fragment 1 64]
        else None),
      ScopeParameters = (\<lambda>sc. case sc of LHS \<Rightarrow> [ex_tall_lhs] | RHS \<Rightarrow> [ex_rhs]
                               | _ \<Rightarrow> [])\<rparr>"

text \<open>The environment in which every program id is \<open>p\<close>.\<close>

definition ex_pid_env :: "int \<Rightarrow> Value \<Rightarrow> LaneValue option" where
  "ex_pid_env p v = (case v of GetProgramIdOp d \<Rightarrow> Some (IntV p) | _ \<Rightarrow> None)"

text \<open>
  The boundary checks that the claim expects of \<^verbatim>\<open>EmitTensorPointer\<close>. A tiled
  dimension is handled when the node has an iteration specification for it; every
  handled dimension takes the next axis of the block pointer. \<open>dim_extent\<close> is the
  bound of a handled dimension that is not the concatenated one: the count of the
  first fragment (of the first operand, for a concatenation), divided by the split of
  the LHS non-contracting dimension where the output dimension is split.
  \<open>expected_checks\<close> lists, in order, the axes of the dimensions that are not
  concatenated and whose extent is not a multiple of block\_size * split\_value.
\<close>

definition concat_dim_of :: "MatMulEmitterHelper \<Rightarrow> HloInstruction \<Rightarrow> Side \<Rightarrow> int" where
  "concat_dim_of this hlo side =
     (if opcode hlo = kConcatenate then
        (if scope side = LHS then lhs_noncontracting_dim_idx (this_dims this)
         else rhs_noncontracting_dim_idx (this_dims this))
      else - 1)"

definition handled :: "MatMulEmitterHelper \<Rightarrow> HloInstruction \<Rightarrow> Side \<Rightarrow> DimProperties \<Rightarrow> bool" where
  "handled this hlo side properties =
     (IterSpec (this_analysis this) (scope side) (unique_id hlo) (index properties) \<noteq> None)"

definition dim_extent :: "MatMulEmitterHelper \<Rightarrow> HloInstruction \<Rightarrow> Side \<Rightarrow> DimProperties \<Rightarrow> int" where
  "dim_extent this hlo side properties =
     (let input = (if opcode hlo = kConcatenate then hd (operands hlo) else hlo);
          spec = the (IterSpec (this_analysis this) (scope side) (unique_id input)
                        (index properties));
          c = count (hd spec)
      in
      if scope side = OUTPUT
         \<and> index properties = out_lhs_noncontracting_dim_idx (this_dims this)
         \<and> length spec = 1
         \<and> lhs_noncontracting_split (this_dims this) \<noteq> None
      then int64 (c sdiv the (lhs_noncontracting_split (this_dims this)))
      else c)"

fun expected_checks ::
  "MatMulEmitterHelper \<Rightarrow> HloInstruction \<Rightarrow> Side \<Rightarrow> int \<Rightarrow> DimProperties list \<Rightarrow> nat \<Rightarrow> int list" where
  "expected_checks this hlo side c [] n = []"
| "expected_checks this hlo side c (d # ds) n =
     (if \<not> handled this hlo side d then expected_checks this hlo side c ds n
      else
        (if index d \<noteq> c \<and> \<not> (block_size d * split_value d) dvd dim_extent this hlo side d
         then [int n] else [])
        @ expected_checks this hlo side c ds (Suc n))"

text \<open>The padding and the boundary checks of an emitted parameter load.\<close>

definition zero_fill :: "Value \<Rightarrow> bool" where
  "zero_fill v =
     (case v of
        LoadOp p checks padding cache evict vol \<Rightarrow> padding = Some PAD_ZERO
      | SplatOp t (LoadOp p checks padding cache evict vol) \<Rightarrow> padding = Some PAD_ZERO
      | _ \<Rightarrow> False)"

definition loaded_checks :: "Value \<Rightarrow> int list" where
  "loaded_checks v =
     (case v of
        LoadOp p checks padding cache evict vol \<Rightarrow> checks
      | SplatOp t (LoadOp p checks padding cache evict vol) \<Rightarrow> checks
      | _ \<Rightarrow> [])"

text \<open>
  An emitter, the LHS side of the example dot and a (100, 64) LHS parameter whose 100
  rows are not a multiple of the block size 32.
\<close>

definition ex_launch_config :: MatMulLaunchConfig where
  "ex_launch_config =
     \<lparr>grid_m = 2, grid_n = 2,
      launch_dims = LaunchDimensions (BlockDim 4 1 1) (ThreadDim 32 1 1),
      batch_program_id_dim = Y, noncontracting_program_id_dim = X\<rparr>"

definition ex_lhs_side :: Side where
  "ex_lhs_side =
     \<lparr>scope = LHS,
      tiled_dims = [\<lparr>index = 0, pid = GetProgramIdOp X, block_size = 32, split_value = 1\<rparr>,
                    \<lparr>index = 1, pid = NullValue, block_size = 32, split_value = 1\<rparr>],
      batch_dim_idx = None\<rparr>"

definition ex_ragged_lhs :: HloInstruction where
  "ex_ragged_lhs =
     HloInstruction 0 kParameter (array_shape F32 [100, 64]) [] no_attributes []"

definition ex_ragged_emitter :: MatMulEmitterHelper where
  "ex_ragged_emitter =
     \<lparr>this_index_ty = IntegerType 32,
      this_analysis =
        \<lparr>IterSpec = (\<lambda>sc hlo d.
           if d = 0 then Some [ex_fragment 64 100]
           else if d = 1 then Some [ex_fragment 1 64]
           else None),
         ScopeParameters = (\<lambda>sc. [])\<rparr>,
      this_dims = ex_dims\<lparr>dims_m := 100\<rparr>,
      this_launch_config = ex_launch_config\<lparr>grid_m := 4\<rparr>\<rparr>"

text \<open>
  A concatenation along dimension 0 of a (64, 64) and a (40, 64) parameter, and the
  same with the operands swapped.
\<close>

definition ex_concat_a :: HloInstruction where
  "ex_concat_a = HloInstruction 10 kParameter (array_shape F32 [64, 64]) [] no_attributes []"

definition ex_concat_b :: HloInstruction where
  "ex_concat_b = HloInstruction 11 kParameter (array_shape F32 [40, 64]) []
                   (no_attributes\<lparr>parameter_number := 1\<rparr>) []"

definition ex_concat :: HloInstruction where
  "ex_concat = HloInstruction 12 kConcatenate (array_shape F32 [104, 64])
                 [ex_concat_a, ex_concat_b] no_attributes []"

definition ex_concat_swapped :: HloInstruction where
  "ex_concat_swapped = HloInstruction 12 kConcatenate (array_shape F32 [104, 64])
                         [ex_concat_b, ex_concat_a] no_attributes []"

definition ex_concat_spec :: "Scope \<Rightarrow> nat \<Rightarrow> int \<Rightarrow> DimIterationSpec option" where
  "ex_concat_spec sc hlo d =
     (if d = 1 then Some [ex_fragment 1 64]
      else if d = 0 then
        (if hlo = 10 then
           Some [\<lparr>stride = 64, count = 64, slice_start = 0, sliced_count = 64\<rparr>]
         else if hlo = 11 then
           Some [\<lparr>stride = 64, count = 40, slice_start = - 64, sliced_count = 40\<rparr>]
         else Some [ex_fragment 64 104])
      else None)"

definition ex_concat_swapped_spec :: "Scope \<Rightarrow> nat \<Rightarrow> int \<Rightarrow> DimIterationSpec option" where
  "ex_concat_swapped_spec sc hlo d =
     (if d = 1 then Some [ex_fragment 1 64]
      else if d = 0 then
        (if hlo = 11 then
           Some [\<lparr>stride = 64, count = 40, slice_start = 0, sliced_count = 40\<rparr>]
         else if hlo = 10 then
           Some [\<lparr>stride = 64, count = 64, slice_start = - 40, sliced_count = 64\<rparr>]
         else Some [ex_fragment 64 104])
      else None)"

definition ex_concat_emitter ::
  "(Scope \<Rightarrow> nat \<Rightarrow> int \<Rightarrow> DimIterationSpec option) \<Rightarrow> MatMulEmitterHelper" where
  "ex_concat_emitter spec =
     \<lparr>this_index_ty = IntegerType 32,
      this_analysis = \<lparr>IterSpec = spec, ScopeParameters = (\<lambda>sc. [])\<rparr>,
      this_dims = ex_dims\<lparr>dims_m := 104\<rparr>,
      this_launch_config = ex_launch_config\<lparr>grid_m := 4\<rparr>\<rparr>"

text \<open>
  The split dot with 65536 rows on the left and the contracting dimension padded from
  65530 to 65536, and the OUTPUT side as \<^verbatim>\<open>EmitMatMul\<close> declares it (\<^verbatim>\<open>Side out\<close>).
\<close>

definition ex_big_split_lhs :: HloInstruction where
  "ex_big_split_lhs =
     HloInstruction 3 kBitcast (array_shape F32 [65536, 2, 32768])
       [HloInstruction 2 kPad (array_shape F32 [65536, 65536])
          [HloInstruction 0 kParameter (array_shape F32 [65536, 65530]) [] no_attributes []]
          no_attributes []]
       no_attributes []"

definition ex_big_split_rhs :: HloInstruction where
  "ex_big_split_rhs =
     HloInstruction 5 kBitcast (array_shape F32 [2, 32768, 64])
       [HloInstruction 4 kPad (array_shape F32 [65536, 64])
          [HloInstruction 1 kParameter (array_shape F32 [65530, 64]) []
             (no_attributes\<lparr>parameter_number := 1\<rparr>) []]
          no_attributes []]
       no_attributes []"

definition ex_big_split_dot :: HloInstruction where
  "ex_big_split_dot =
     HloInstruction 6 kDot (array_shape F32 [2, 65536, 64]) [ex_big_split_lhs, ex_big_split_rhs]
       (no_attributes\<lparr>dot_dims :=
          \<lparr>lhs_contracting_dimensions = [2], rhs_contracting_dimensions = [1],
           lhs_batch_dimensions = [1], rhs_batch_dimensions = [0]\<rparr>\<rparr>) []"

definition ex_big_split_computation :: HloComputation where
  "ex_big_split_computation =
     \<lparr>instructions = [ex_big_split_lhs, ex_big_split_rhs, ex_big_split_dot],
      root_instruction = ex_big_split_dot\<rparr>"

definition ex_big_split_analysis :: TritonFusionAnalysis where
  "ex_big_split_analysis =
     \<lparr>IterSpec = (\<lambda>sc hlo d.
        if sc = OUTPUT \<and> d = 0 then Some [ex_fragment 4194304 2]
        else if sc = OUTPUT \<and> d = 1 then Some [ex_fragment 64 65536]
        else if sc = OUTPUT \<and> d = 2 then Some [ex_fragment 1 64]
        else if sc = LHS \<and> d = 0 then Some [ex_fragment 65530 65536]
        else None),
      ScopeParameters = (\<lambda>sc. [])\<rparr>"

definition ex_out_side :: "TritonGemmConfig \<Rightarrow> MatMulProgram \<Rightarrow> Side" where
  "ex_out_side config prog =
     \<lparr>scope = OUTPUT,
      tiled_dims =
        [\<lparr>index = out_lhs_noncontracting_dim_idx (matmul_dims prog), pid = pid_m prog,
          block_size = block_m config, split_value = 1\<rparr>,
         \<lparr>index = out_rhs_noncontracting_dim_idx (matmul_dims prog), pid = pid_n prog,
          block_size = block_n config, split_value = 1\<rparr>],
      batch_dim_idx = out_batch_dim_idx (matmul_dims prog)\<rparr>"

definition ex_out_base :: Value where
  "ex_out_base = BlockArgument 2 (PointerType Float32Type)"

text \<open>
  The offsets that a pointer term adds to its base with \<^verbatim>\<open>tt.addptr\<close>, outermost
  first, looking through the block pointer built on top of it.
\<close>

fun added_offsets :: "Value \<Rightarrow> Value list" where
  "added_offsets (AddPtrOp t p off) = off # added_offsets p"
| "added_offsets (MakeTensorPtrOp base shp strs offsets dims order) = added_offsets base"
| "added_offsets (AdvanceOp t p offsets) = added_offsets p"
| "added_offsets v = []"

section \<open>Properties\<close>

subsection \<open>Auxiliary facts\<close>

lemma int32_id: "- (2 ^ 31) \<le> v \<Longrightarrow> v < 2 ^ 31 \<Longrightarrow> int32 v = v"
  by (simp add: int32_def signed_take_bit_int_eq_self)

lemma int64_id: "- (2 ^ 63) \<le> v \<Longrightarrow> v < 2 ^ 63 \<Longrightarrow> int64 v = v"
  by (simp add: int64_def signed_take_bit_int_eq_self)

lemma andThen_Inr [simp]: "andThen (Inr v) f = f v"
  by (simp add: andThen_def)

lemma andThen_Inl [simp]: "andThen (Inl e) f = Inl e"
  by (simp add: andThen_def)

lemma andThen_eq_Inr: "andThen r f = Inr y \<longleftrightarrow> (\<exists>v. r = Inr v \<and> f v = Inr y)"
  by (cases r) simp_all

lemma andThen_eq_Inl:
  "andThen r f = Inl e \<longleftrightarrow> (r = Inl e \<or> (\<exists>v. r = Inr v \<and> f v = Inl e))"
  by (cases r) simp_all

lemma sdiv_nonneg: "0 \<le> a \<Longrightarrow> 0 < b \<Longrightarrow> a sdiv b = a div (b::int)"
  by (cases "a = 0") (simp_all add: signed_divide_int_def)

lemma smod_nonneg: "0 \<le> a \<Longrightarrow> 0 < b \<Longrightarrow> a smod b = a mod (b::int)"
  by (cases "a = 0") (simp_all add: signed_modulo_int_def)

lemma sdiv_abs_le: "\<bar>a sdiv b\<bar> \<le> \<bar>a\<bar>" for a b :: int
  using sdiv_int_range [of a b] by auto

lemma round_up_div:
  fixes a b :: int
  assumes "0 < b"
  shows "(a + b - 1) div b = ceil_div a b"
proof -
  define q where "q = (- a) div b"
  define r where "r = (- a) mod b"
  have r: "0 \<le> r" "r < b" using assms by (simp_all add: r_def)
  have "- a = b * q + r" by (simp add: q_def r_def)
  then have "a + b - 1 = b * (- q) + (b - 1 - r)" by (simp add: algebra_simps)
  moreover have "0 \<le> b - 1 - r" "b - 1 - r < b" using r by simp_all
  ultimately have "(a + b - 1) div b = - q"
    by (rule int_div_pos_eq)
  then show ?thesis by (simp add: q_def ceil_div_def ceiling_divide_eq_div)
qed

lemma heuristic_check:
  assumes "num_warps c \<noteq> 0" and "heuristic_fits c"
  shows "CheckGemmTilingComplexityHeuristic c =
     (if heuristic_value c > 9000 then
        Inl (Error (ResourceExhausted ''Tiling complexity heuristic exceeded: %d > %d''
                      [heuristic_value c, 9000]))
      else Inr ())"
proof -
  let ?s = "block_m c * block_n c + (block_m c + block_n c) * block_k c"
  have "\<bar>?s sdiv num_warps c\<bar> \<le> \<bar>?s\<bar>" by (rule sdiv_abs_le)
  then have q: "int32 (?s sdiv num_warps c) = ?s sdiv num_warps c"
    using assms(2) by (intro int32_id) (auto simp: fits_int32_def heuristic_fits_def)
  show ?thesis
    using assms q
    by (simp add: CheckGemmTilingComplexityHeuristic_def cpp_div_def int32_id fits_int32_def
        heuristic_value_def heuristic_fits_def kComplexityHeuristicLimit_def Let_def)
qed

lemma fails_with_andThen:
  "fails_with P r \<Longrightarrow> (\<And>v. fails_with P (f v)) \<Longrightarrow> fails_with P (andThen r f)"
  by (auto simp: fails_with_def andThen_eq_Inl)

lemma fails_with_Inr [simp]: "fails_with P (Inr v)"
  by (simp add: fails_with_def)

lemma fails_with_Inl [simp]: "fails_with P (Inl e) = P e"
  by (simp add: fails_with_def)

lemma fails_with_if:
  "fails_with P a \<Longrightarrow> fails_with P b \<Longrightarrow> fails_with P (if c then a else b)"
  by simp

lemma fails_with_case_option:
  "fails_with P a \<Longrightarrow> (\<And>v. fails_with P (f v)) \<Longrightarrow>
   fails_with P (case x of None \<Rightarrow> a | Some v \<Rightarrow> f v)"
  by (cases x) simp_all

lemma fails_with_case_prod:
  "(\<And>a b. fails_with P (f a b)) \<Longrightarrow> fails_with P (case x of (a, b) \<Rightarrow> f a b)"
  by (cases x) simp

lemmas fails_with_intros =
  fails_with_andThen fails_with_if fails_with_case_option fails_with_case_prod

lemma internal_or_fatal_basic [simp]:
  "fails_with internal_or_fatal (at_index xs i)"
  "fails_with internal_or_fatal (operand hlo i)"
  "fails_with internal_or_fatal (deref p)"
  "fails_with internal_or_fatal (last_element xs)"
  "fails_with internal_or_fatal (shape_dimensions s i)"
  "fails_with internal_or_fatal (cpp_div a b)"
  "fails_with internal_or_fatal (TF_RET_CHECK c t)"
  "fails_with internal_or_fatal (CHECK c t)"
  by (auto simp: fails_with_def internal_or_fatal_def at_index_def operand_def deref_def
      last_element_def shape_dimensions_def cpp_div_def TF_RET_CHECK_def CHECK_def
      InternalError_def split: option.splits if_splits)

lemma internal_or_fatal_Fatal [simp]: "internal_or_fatal (Fatal s)"
  by (simp add: internal_or_fatal_def)

lemma split_spec_loop_failures:
  "fails_with internal_or_fatal (GetLhsNoncontractingSplitSpec_loop a i ps r)"
  by (induction a i ps r rule: GetLhsNoncontractingSplitSpec_loop.induct)
     (auto split: option.splits)

lemma ValidateMatMulConfig_failures:
  "fails_with internal_or_fatal (ValidateMatMulConfig c d)"
  unfolding ValidateMatMulConfig_def Let_def
  by (intro fails_with_intros internal_or_fatal_basic | simp)+

lemma Create_failures: "fails_with internal_or_fatal (Create c p d a)"
  unfolding Create_def Let_def GetLhsNoncontractingSplitSpec_def
  by (intro fails_with_intros internal_or_fatal_basic split_spec_loop_failures | simp)+

lemma MakeMatMulLaunchConfig_failures:
  "fails_with internal_or_fatal (MakeMatMulLaunchConfig c d ds)"
  unfolding MakeMatMulLaunchConfig_def Let_def
  by (intro fails_with_intros internal_or_fatal_basic | simp)+

lemma EmitMatMul_failures:
  assumes "CheckGemmTilingComplexityHeuristic c = Inr ()"
  shows "fails_with internal_or_fatal (EmitMatMul a cmp c)"
  unfolding EmitMatMul_def Let_def
  by (intro fails_with_intros internal_or_fatal_basic ValidateMatMulConfig_failures
        Create_failures MakeMatMulLaunchConfig_failures
      | simp add: assms)+

subsection \<open>The pre-flight complexity check\<close>

text \<open>
  Claim C9. For a configuration whose warp count is not zero and whose heuristic is
  computed without overflow, \<^verbatim>\<open>EmitMatMul\<close> returns the resource-exhausted status of
  the complexity check, whatever the analysis and the computation are, when the
  heuristic value (block\_m * block\_n + (block\_m + block\_n) * block\_k) / num\_warps
  is above 9000; at or below 9000 the check passes; and \<^verbatim>\<open>EmitMatMul\<close> returns a
  resource-exhausted status if and only if the value is above 9000.
\<close>

theorem complexity_heuristic_preflight:
  assumes "num_warps config \<noteq> 0" and "heuristic_fits config"
  shows "(heuristic_value config > 9000 \<longrightarrow>
            EmitMatMul analysis computation config =
              Inl (Error (ResourceExhausted ''Tiling complexity heuristic exceeded: %d > %d''
                            [heuristic_value config, 9000])))
       \<and> (heuristic_value config \<le> 9000 \<longrightarrow>
            CheckGemmTilingComplexityHeuristic config = Inr ())
       \<and> ((\<exists>st. EmitMatMul analysis computation config = Inl (Error st)
                 \<and> code st = kResourceExhausted)
            \<longleftrightarrow> heuristic_value config > 9000)"
proof (cases "heuristic_value config > 9000")
  case True
  then show ?thesis
    using heuristic_check [OF assms]
    by (simp add: EmitMatMul_def ResourceExhausted_def)
next
  case False
  then have ok: "CheckGemmTilingComplexityHeuristic config = Inr ()"
    using heuristic_check [OF assms] by simp
  have "\<not> (\<exists>st. EmitMatMul analysis computation config = Inl (Error st)
                 \<and> code st = kResourceExhausted)"
    using EmitMatMul_failures [OF ok, of analysis computation]
    by (auto simp: fails_with_def internal_or_fatal_def)
  with False ok show ?thesis by simp
qed

theorem complexity_heuristic_preflight_witness:
  "num_warps ex_config \<noteq> 0 \<and> heuristic_fits ex_config
   \<and> heuristic_value ex_config = 3072
   \<and> CheckGemmTilingComplexityHeuristic ex_config = Inr ()
   \<and> heuristic_value (ex_config\<lparr>block_m := 128, block_n := 128\<rparr>) = 24576
   \<and> EmitMatMul ex_analysis ex_computation (ex_config\<lparr>block_m := 128, block_n := 128\<rparr>) =
       Inl (Error (ResourceExhausted ''Tiling complexity heuristic exceeded: %d > %d''
                     [24576, 9000]))"
proof -
  have a: "num_warps ex_config \<noteq> 0" "heuristic_fits ex_config"
    by (simp_all add: ex_config_def heuristic_fits_def fits_int32_def)
  have v: "heuristic_value ex_config = 3072"
    by (simp add: ex_config_def heuristic_value_def)
  have b: "num_warps (ex_config\<lparr>block_m := 128, block_n := 128\<rparr>) \<noteq> 0"
    "heuristic_fits (ex_config\<lparr>block_m := 128, block_n := 128\<rparr>)"
    by (simp_all add: ex_config_def heuristic_fits_def fits_int32_def)
  have w: "heuristic_value (ex_config\<lparr>block_m := 128, block_n := 128\<rparr>) = 24576"
    by (simp add: ex_config_def heuristic_value_def)
  show ?thesis
    using a v w complexity_heuristic_preflight [OF a, of ex_analysis ex_computation]
      complexity_heuristic_preflight [OF b, of ex_analysis ex_computation]
    by simp
qed

lemma int64_fits: "fits_int64 v \<Longrightarrow> int64 v = v"
  by (simp add: fits_int64_def int64_id)

lemma grid_extent:
  assumes "1 \<le> a" "1 \<le> b" "fits_int64 (a + b)"
  shows "andThen (cpp_div (int64 (int64 (a + b) - 1)) b) f = f (ceil_div a b)"
    and "1 \<le> ceil_div a b" and "ceil_div a b \<le> a"
proof -
  have 1: "int64 (a + b) = a + b" using assms by (simp add: int64_fits)
  have 2: "int64 (a + b - 1) = a + b - 1"
    using assms by (intro int64_id) (auto simp: fits_int64_def)
  have 3: "(a + b - 1) sdiv b = ceil_div a b"
    using assms by (simp add: sdiv_nonneg round_up_div)
  show "andThen (cpp_div (int64 (int64 (a + b) - 1)) b) f = f (ceil_div a b)"
    using assms 1 2 3 by (simp add: cpp_div_def)
  have "0 < (a + b - 1) div b"
    using assms by (simp add: pos_imp_zdiv_pos_iff)
  then show "1 \<le> ceil_div a b" using assms by (simp add: round_up_div [symmetric])
  have "(a + b - 1) div b \<le> a"
  proof -
    have "a * 1 \<le> a * b" using assms by (intro mult_left_mono) simp_all
    then have "a + b - 1 \<le> b * a + (b - 1)" by (simp add: algebra_simps)
    then have "(a + b - 1) div b \<le> (b * a + (b - 1)) div b"
      using assms by (intro zdiv_mono1) simp_all
    moreover have "(b * a + (b - 1)) div b = a"
      using assms by (intro int_div_pos_eq [where r = "b - 1"]) simp_all
    ultimately have "(a + b - 1) div b \<le> a" by simp
    then show ?thesis by simp
  qed
  then show "ceil_div a b \<le> a" using assms by (simp add: round_up_div [symmetric])
qed

subsection \<open>The launch planner\<close>

text \<open>
  Claim C1. For dimensions with m, n \<ge> 1 and block sizes \<ge> 1 (what
  \<^verbatim>\<open>MatMulDims::Create\<close> and \<^verbatim>\<open>ValidateMatMulConfig\<close> guarantee), a batch
  dimension that exists in the output shape and arithmetic that stays within
  \<^verbatim>\<open>int64_t\<close>: grid\_m = ceil(m / block\_m) and grid\_n = ceil(n / block\_n); the batch
  size is the split multiplier if present, else the output batch extent, else 1; the
  construction ends the process when batch\_size * grid\_m * grid\_n \<ge> 65536 * 65536;
  otherwise a batch size of at least 65536 puts the batch on X and grid\_m * grid\_n on
  Y, a smaller one puts the batch on Y and grid\_m * grid\_n on X, and the split factor
  is always the Z extent.
\<close>

theorem launch_planner:
  assumes m: "1 \<le> dims_m dims" and n: "1 \<le> dims_n dims"
    and bm: "1 \<le> block_m config" and bn: "1 \<le> block_n config"
    and idx: "batch_dim_in_range dot dims"
    and fits: "launch_arithmetic_fits config dot dims"
  shows "MakeMatMulLaunchConfig config dot dims =
     (let gm = ceil_div (dims_m dims) (block_m config);
          gn = ceil_div (dims_n dims) (block_n config);
          batch_size = batch_size_of dot dims;
          threads = ThreadDim (num_warps config * 32) 1 1
      in
      if batch_size * gm * gn \<ge> 65536 * 65536 then
        Inl (Fatal ''batch_size * grid_m * grid_n < kBlockCountYZLimit * kBlockCountYZLimit'')
      else if batch_size \<ge> 65536 then
        Inr \<lparr>grid_m = gm, grid_n = gn,
             launch_dims = LaunchDimensions (BlockDim batch_size (gm * gn) (split_k config)) threads,
             batch_program_id_dim = X, noncontracting_program_id_dim = Y\<rparr>
      else
        Inr \<lparr>grid_m = gm, grid_n = gn,
             launch_dims = LaunchDimensions (BlockDim (gm * gn) batch_size (split_k config)) threads,
             batch_program_id_dim = Y, noncontracting_program_id_dim = X\<rparr>)"
proof -
  let ?gm = "ceil_div (dims_m dims) (block_m config)"
  let ?gn = "ceil_div (dims_n dims) (block_n config)"
  let ?b = "batch_size_of dot dims"
  have f: "fits_int64 (dims_m dims + block_m config)" "fits_int64 (dims_n dims + block_n config)"
    "fits_int64 (?b * ?gm)" "fits_int64 (?b * ?gm * ?gn)" "fits_int64 (?gm * ?gn)"
    "fits_int64 (num_warps config * 32)"
    using fits by (simp_all add: launch_arithmetic_fits_def Let_def WarpSize_def)
  have gm: "int64 ?gm = ?gm"
    using grid_extent(2,3) [OF m bm f(1)] f(1) m bm by (intro int64_id) (auto simp: fits_int64_def)
  have gn: "int64 ?gn = ?gn"
    using grid_extent(2,3) [OF n bn f(2)] f(2) n bn by (intro int64_id) (auto simp: fits_int64_def)
  have batch: "(case lhs_noncontracting_split dims of
          Some split \<Rightarrow> Inr split
        | None \<Rightarrow>
            (case out_batch_dim_idx dims of
               Some idx \<Rightarrow> shape_dimensions (shape dot) idx
             | None \<Rightarrow> Inr 1)) = Inr ?b"
    using idx
    by (auto simp: batch_dim_in_range_def batch_size_of_def shape_dimensions_def at_index_def rank_def
        split: option.splits)
  have lim: "int64 4294967296 = 4294967296"
    by (simp add: int64_def)
  show ?thesis
    unfolding MakeMatMulLaunchConfig_def
    by (simp add: grid_extent(1) [OF m bm f(1)] grid_extent(1) [OF n bn f(2)] gm gn batch
        int64_fits [OF f(3)] int64_fits [OF f(4)] int64_fits [OF f(5)] int64_fits [OF f(6)]
        lim CHECK_def Let_def WarpSize_def kBlockCountYZLimit_def)
qed

theorem launch_planner_witness:
  "MakeMatMulLaunchConfig ex_config ex_dot ex_dims =
     Inr \<lparr>grid_m = 2, grid_n = 2,
          launch_dims = LaunchDimensions (BlockDim 4 1 1) (ThreadDim 32 1 1),
          batch_program_id_dim = Y, noncontracting_program_id_dim = X\<rparr>
   \<and> MakeMatMulLaunchConfig ex_config ex_dot (ex_dims\<lparr>lhs_noncontracting_split := Some 70000\<rparr>) =
     Inr \<lparr>grid_m = 2, grid_n = 2,
          launch_dims = LaunchDimensions (BlockDim 70000 4 1) (ThreadDim 32 1 1),
          batch_program_id_dim = X, noncontracting_program_id_dim = Y\<rparr>
   \<and> MakeMatMulLaunchConfig ex_config ex_dot (ex_dims\<lparr>lhs_noncontracting_split := Some 1073741824\<rparr>) =
     Inl (Fatal ''batch_size * grid_m * grid_n < kBlockCountYZLimit * kBlockCountYZLimit'')"
proof -
  have g: "ceil_div 64 32 = 2" by (simp add: ceil_div_def)
  have h: "1 \<le> dims_m ex_dims" "1 \<le> dims_n ex_dims" "1 \<le> block_m ex_config"
    "1 \<le> block_n ex_config"
    by (simp_all add: ex_dims_def ex_config_def)
  have i: "batch_dim_in_range ex_dot (ex_dims\<lparr>lhs_noncontracting_split := s\<rparr>)" for s
    by (simp add: batch_dim_in_range_def ex_dims_def split: option.splits)
  have b: "batch_size_of ex_dot ex_dims = 1"
    "batch_size_of ex_dot (ex_dims\<lparr>lhs_noncontracting_split := Some s\<rparr>) = s" for s
    by (simp_all add: batch_size_of_def ex_dims_def)
  have f: "launch_arithmetic_fits ex_config ex_dot ex_dims"
    "launch_arithmetic_fits ex_config ex_dot (ex_dims\<lparr>lhs_noncontracting_split := Some 70000\<rparr>)"
    "launch_arithmetic_fits ex_config ex_dot (ex_dims\<lparr>lhs_noncontracting_split := Some 1073741824\<rparr>)"
    using g b by (simp_all add: launch_arithmetic_fits_def ex_dims_def ex_config_def fits_int64_def WarpSize_def)
  have 1: "MakeMatMulLaunchConfig ex_config ex_dot ex_dims =
     Inr \<lparr>grid_m = 2, grid_n = 2,
          launch_dims = LaunchDimensions (BlockDim 4 1 1) (ThreadDim 32 1 1),
          batch_program_id_dim = Y, noncontracting_program_id_dim = X\<rparr>"
    using launch_planner [of ex_dims ex_config ex_dot] h i [of None] f(1) g b(1)
    by (simp add: ex_dims_def ex_config_def)
  have 2: "MakeMatMulLaunchConfig ex_config ex_dot (ex_dims\<lparr>lhs_noncontracting_split := Some 70000\<rparr>) =
     Inr \<lparr>grid_m = 2, grid_n = 2,
          launch_dims = LaunchDimensions (BlockDim 70000 4 1) (ThreadDim 32 1 1),
          batch_program_id_dim = X, noncontracting_program_id_dim = Y\<rparr>"
    using launch_planner [of "ex_dims\<lparr>lhs_noncontracting_split := Some 70000\<rparr>" ex_config ex_dot]
      h i [of "Some 70000"] f(2) g b(2) [of 70000]
    by (simp add: ex_dims_def ex_config_def)
  have 3: "MakeMatMulLaunchConfig ex_config ex_dot (ex_dims\<lparr>lhs_noncontracting_split := Some 1073741824\<rparr>) =
     Inl (Fatal ''batch_size * grid_m * grid_n < kBlockCountYZLimit * kBlockCountYZLimit'')"
    using launch_planner [of "ex_dims\<lparr>lhs_noncontracting_split := Some 1073741824\<rparr>" ex_config ex_dot]
      h i [of "Some 1073741824"] f(3) g b(2) [of 1073741824]
    by (simp add: ex_dims_def ex_config_def)
  show ?thesis using 1 2 3 by simp
qed


lemma Create_example:
  "Create ex_config ex_computation ex_dot ex_analysis = Inr ex_dims"
  by code_simp

lemma Create_split_example:
  "Create ex_split_config ex_split_computation ex_split_dot ex_split_analysis = Inr ex_split_dims"
  by code_simp

subsection \<open>The contracting extent\<close>

text \<open>
  Claim C2. When \<^verbatim>\<open>MatMulDims::Create\<close> succeeds (and the index and the product
  below stay within \<^verbatim>\<open>int64_t\<close>): if split\_k > 1 and the producer of the RHS operand
  of the dot is a pad, then k is the extent of the unpadded operand of that pad in the
  dimension just before the RHS contracting dimension; otherwise k is the extent of
  the RHS contracting dimension times split\_k.
\<close>

theorem contracting_extent:
  assumes "Create config parent dot analysis = Inr dims"
      and "operand dot 1 = Inr rhs"
      and "at_index (rhs_contracting_dimensions (dot_dims (attributes dot))) 0 = Inr c"
      and "fits_int64 (c - 1)"
      and "fits_int64 (dimensions (shape rhs) ! nat c * split_k config)"
  shows "if split_k config > 1 \<and> (\<exists>pad. operand rhs 0 = Inr pad \<and> opcode pad = kPad)
         then \<exists>pad unpadded. operand rhs 0 = Inr pad \<and> operand pad 0 = Inr unpadded
                \<and> shape_dimensions (shape unpadded) (c - 1) = Inr (dims_k dims)
         else \<exists>extent. shape_dimensions (shape rhs) c = Inr extent
                \<and> dims_k dims = extent * split_k config"
  using assms
  by (auto simp: Create_def Let_def andThen_eq_Inr int64_fits shape_dimensions_def at_index_def
      split: if_splits prod.splits option.splits)

theorem contracting_extent_witness:
  "Create ex_config ex_computation ex_dot ex_analysis = Inr ex_dims
   \<and> split_k ex_config = 1
   \<and> shape_dimensions (shape ex_rhs) 0 = Inr 64 \<and> dims_k ex_dims = 64 * 1
   \<and> Create ex_split_config ex_split_computation ex_split_dot ex_split_analysis = Inr ex_split_dims
   \<and> split_k ex_split_config = 2
   \<and> map_sum id opcode (operand ex_split_rhs 0) = Inr kPad
   \<and> dims_k ex_split_dims = 60"
proof -
  have 1: "operand ex_dot 1 = Inr ex_rhs"
    "at_index (rhs_contracting_dimensions (dot_dims (attributes ex_dot))) 0 = Inr 0"
    "fits_int64 (0 - 1)"
    "fits_int64 (dimensions (shape ex_rhs) ! nat 0 * split_k ex_config)"
    by (simp_all add: ex_dot_def operand_def at_index_def ex_rhs_def array_shape_def
        ex_config_def fits_int64_def)
  have 2: "operand ex_split_dot 1 = Inr ex_split_rhs"
    "at_index (rhs_contracting_dimensions (dot_dims (attributes ex_split_dot))) 0 = Inr 1"
    "fits_int64 (1 - 1)"
    "fits_int64 (dimensions (shape ex_split_rhs) ! nat 1 * split_k ex_split_config)"
    by (simp_all add: ex_split_dot_def operand_def at_index_def ex_split_rhs_def array_shape_def
        ex_split_config_def ex_config_def fits_int64_def)
  have a: "split_k ex_config = 1" "split_k ex_split_config = 2"
    by (simp_all add: ex_split_config_def ex_config_def)
  have p: "operand ex_split_rhs 0 = Inr (HloInstruction 4 kPad (array_shape F32 [64, 64])
          [HloInstruction 1 kParameter (array_shape F32 [60, 64]) []
             (no_attributes\<lparr>parameter_number := 1\<rparr>) []]
          no_attributes [])"
    by (simp add: ex_split_rhs_def operand_def at_index_def)
  have k: "dims_k ex_split_dims = 60" "dims_k ex_dims = 64"
    by (simp_all add: ex_split_dims_def ex_dims_def)
  have s: "shape_dimensions (shape ex_rhs) 0 = Inr 64"
    by (simp add: shape_dimensions_def ex_rhs_def array_shape_def at_index_def)
  show ?thesis
    using contracting_extent [OF Create_example 1]
      contracting_extent [OF Create_split_example 2] a p k s Create_example Create_split_example
    by simp
qed

lemma Cst_32: 
  "this_index_ty this = IntegerType 32 \<Longrightarrow>
   Cst this v = Inr (ConstantOp (IntegerAttr (IntegerType 32) (APInt 32 (int64 v))))"
  by (simp add: Cst_def CreateConst_def isIntegerType_def to_int64_def getIntOrFloatBitWidth_def)

subsection \<open>The index type\<close>

lemma tensor_pointer_all_stages:
  assumes "andThen A (\<lambda>(c, cb, cpo, base).
             andThen (B c cb cpo) (\<lambda>parts.
             andThen (C cb cpo) (\<lambda>(bs, ob, hb).
             andThen (D base bs ob hb) (\<lambda>b1.
             andThen (E b1) (\<lambda>b2. F parts b2))))) = Inr r"
    and "\<And>c cb cpo base parts bs ob hb b1 b2.
           A = Inr (c, cb, cpo, base) \<Longrightarrow> B c cb cpo = Inr parts \<Longrightarrow> C cb cpo = Inr (bs, ob, hb) \<Longrightarrow>
           D base bs ob hb = Inr b1 \<Longrightarrow> E b1 = Inr b2 \<Longrightarrow> F parts b2 = Inr r \<Longrightarrow> P"
  shows P
  using assms by (auto simp: andThen_eq_Inr split: prod.splits)

lemma added_offsets_multi_select:
  assumes "EmitMultiSelect idx limits choices = Inr r"
    and "\<forall>b\<in>set choices. added_offsets b = []"
  shows "added_offsets r = []"
proof -
  have len: "length choices = length limits + 1"
    using assms(1) by (auto simp: EmitMultiSelect_def TF_RET_CHECK_def andThen_eq_Inr split: if_splits)
  have r: "r = multi_select_fold idx limits choices (length limits)"
    using assms(1) len by (simp add: EmitMultiSelect_def multi_select_fold_def TF_RET_CHECK_def)
  show ?thesis
  proof (cases "length limits")
    case 0
    then have "r = choices ! 0" using r by (simp add: multi_select_fold_def)
    moreover have "choices ! 0 \<in> set choices" using len by (intro nth_mem) simp
    ultimately show ?thesis using assms(2) by simp
  next
    case (Suc k)
    then show ?thesis using r by (simp add: multi_select_fold_def)
  qed
qed

lemma Cst_type:
  assumes "Cst this v = Inr c" "this_index_ty this = IntegerType w"
  shows "getType c = IntegerType w"
  using assms
  by (auto simp: Cst_def CreateConst_def isIntegerType_def attrType_def andThen_eq_Inr split: if_splits)

lemma EmitTensorPointer_offsets:
  assumes ok: "EmitTensorPointer this hlo side bases pk checks = Inr (ptr, cs)"
    and bases: "\<forall>b\<in>set bases. added_offsets b = []"
    and ty: "this_index_ty this = IntegerType w" "w = 32 \<or> w = 64"
    and pk: "pk = NullValue \<or> getType pk = IntegerType 32"
  shows "\<forall>off\<in>set (added_offsets ptr). getType off = IntegerType w"
proof (rule tensor_pointer_all_stages [OF ok [unfolded EmitTensorPointer_def]], goal_cases)
  case (1 c cb cpo base parts bs ob hb b1 b2)
  have base: "added_offsets base = []"
    using 1(1) bases added_offsets_multi_select [of cpo _ bases base]
    by (auto simp: Let_def andThen_eq_Inr at_index_def split: if_splits option.splits)
  have b1: "\<forall>off\<in>set (added_offsets b1). getType off = IntegerType w"
    using 1(4) base Cst_type [OF _ ty(1)]
    by (auto simp: Let_def andThen_eq_Inr AddPtr_def split: if_splits)
  have b2: "\<forall>off\<in>set (added_offsets b2). getType off = IntegerType w"
    using 1(5) b1 Cst_type [OF _ ty(1)] ty pk
    by (auto simp: Let_def andThen_eq_Inr AddPtr_def ConvertScalar_def TF_RET_CHECK_def
        getIntOrFloatBitWidth_def split: if_splits option.splits)
  show ?case
    using 1(6) b2 by (auto simp: Let_def split: if_splits)
qed



lemma Cst_index_ty:
  "this_index_ty this = IntegerType w \<Longrightarrow>
   Cst this v = Inr (ConstantOp (IntegerAttr (IntegerType w) (APInt w (int64 v))))"
  by (simp add: Cst_def CreateConst_def isIntegerType_def to_int64_def getIntOrFloatBitWidth_def)

lemma EmitMatMul_emitter:
  assumes "EmitMatMul analysis computation config = Inr prog"
  shows "emitter prog = \<lparr>this_index_ty = index_ty prog, this_analysis = analysis,
                          this_dims = matmul_dims prog, this_launch_config = launch_config prog\<rparr>"
    and "index_ty prog = IntegerType (if use_64bit_indexing prog then 64 else 32)"
    and "pid_k prog = (if split_k config > 1 then GetProgramIdOp Z else NullValue)"
  using assms
  by (auto simp: EmitMatMul_def andThen_eq_Inr Let_def)

text \<open>
  Claim C10. When \<^verbatim>\<open>EmitMatMul\<close> gets past its checks (and the output element
  count times split\_k stays within \<^verbatim>\<open>int64_t\<close>), it uses 64-bit indexing if and
  only if the LHS element count, the RHS element count or the output element count
  times split\_k exceeds INT\_MAX. The index type is the 64-bit integer type then and
  the 32-bit integer type otherwise, and the emitter that \<^verbatim>\<open>EmitMatMul\<close> constructs
  works in it: \<^verbatim>\<open>Cst\<close> makes a constant of that type, \<^verbatim>\<open>ConvertScalar\<close> sign-extends
  a value to 64 bits under 64-bit indexing and leaves it unchanged otherwise, and in
  every pointer that \<^verbatim>\<open>EmitTensorPointer\<close> builds for this emitter and its
  \<open>pid_k\<close> (from bases that carry no offset) each offset added to the base pointer,
  the batch offset and the split-k offset, has the index type. The shape and stride
  operands of the block pointer are 64-bit constants and its block offsets 32-bit
  values under either index type, as the block pointer operation prescribes.
\<close>

theorem index_type_selection:
  assumes "EmitMatMul analysis computation config = Inr prog"
      and "GetFirstInstructionWithOpcode computation kDot = Some dot"
      and "operand dot 0 = Inr lhs" and "operand dot 1 = Inr rhs"
      and "fits_int64 (ElementsIn (shape dot) * split_k config)"
  shows "(use_64bit_indexing prog \<longleftrightarrow>
            (ElementsIn (shape lhs) > INT_MAX \<or> ElementsIn (shape rhs) > INT_MAX
             \<or> ElementsIn (shape dot) * split_k config > INT_MAX))
       \<and> index_ty prog = (if use_64bit_indexing prog then IntegerType 64 else IntegerType 32)
       \<and> emitter prog = \<lparr>this_index_ty = index_ty prog, this_analysis = analysis,
                          this_dims = matmul_dims prog, this_launch_config = launch_config prog\<rparr>
       \<and> (\<forall>v. Cst (emitter prog) v =
                (if use_64bit_indexing prog
                 then Inr (ConstantOp (IntegerAttr (IntegerType 64) (APInt 64 (int64 v))))
                 else Inr (ConstantOp (IntegerAttr (IntegerType 32) (APInt 32 (int64 v))))))
       \<and> (\<forall>x. ConvertScalar (emitter prog) x =
                (if use_64bit_indexing prog then ExtSIOp (IntegerType 64) x else x))
       \<and> (\<forall>hlo side bases checks ptr cs.
             EmitTensorPointer (emitter prog) hlo side bases (pid_k prog) checks = Inr (ptr, cs)
             \<and> (\<forall>b\<in>set bases. added_offsets b = [])
             \<longrightarrow> (\<forall>off\<in>set (added_offsets ptr). getType off = index_ty prog))"
proof -
  note e = EmitMatMul_emitter [OF assms(1)]
  have 1: "use_64bit_indexing prog \<longleftrightarrow>
            (ElementsIn (shape lhs) > INT_MAX \<or> ElementsIn (shape rhs) > INT_MAX
             \<or> ElementsIn (shape dot) * split_k config > INT_MAX)"
    using assms by (auto simp: EmitMatMul_def andThen_eq_Inr deref_def Let_def int64_fits)
  have ty: "this_index_ty (emitter prog) = IntegerType (if use_64bit_indexing prog then 64 else 32)"
    using e(1,2) by simp
  have 4: "Cst (emitter prog) v =
                (if use_64bit_indexing prog
                 then Inr (ConstantOp (IntegerAttr (IntegerType 64) (APInt 64 (int64 v))))
                 else Inr (ConstantOp (IntegerAttr (IntegerType 32) (APInt 32 (int64 v)))))" for v
    using Cst_index_ty [OF ty, of v] by simp
  have 5: "ConvertScalar (emitter prog) x =
                (if use_64bit_indexing prog then ExtSIOp (IntegerType 64) x else x)" for x
    using ty by (simp add: ConvertScalar_def getIntOrFloatBitWidth_def)
  have pk: "pid_k prog = NullValue \<or> getType (pid_k prog) = IntegerType 32"
    using e(3) by simp
  have 2: "index_ty prog = (if use_64bit_indexing prog then IntegerType 64 else IntegerType 32)"
    using e(2) by simp
  have 6: "\<forall>hlo side bases checks ptr cs.
             EmitTensorPointer (emitter prog) hlo side bases (pid_k prog) checks = Inr (ptr, cs)
             \<and> (\<forall>b\<in>set bases. added_offsets b = [])
             \<longrightarrow> (\<forall>off\<in>set (added_offsets ptr). getType off = index_ty prog)"
  proof (intro allI impI, elim conjE)
    fix hlo side bases checks ptr cs
    assume "EmitTensorPointer (emitter prog) hlo side bases (pid_k prog) checks = Inr (ptr, cs)"
      and "\<forall>b\<in>set bases. added_offsets b = []"
    from EmitTensorPointer_offsets [OF this ty _ pk]
    show "\<forall>off\<in>set (added_offsets ptr). getType off = index_ty prog"
      using e(2) by simp
  qed
  from 4 have 4: "\<forall>v. Cst (emitter prog) v =
                (if use_64bit_indexing prog
                 then Inr (ConstantOp (IntegerAttr (IntegerType 64) (APInt 64 (int64 v))))
                 else Inr (ConstantOp (IntegerAttr (IntegerType 32) (APInt 32 (int64 v)))))" ..
  from 5 have 5: "\<forall>x. ConvertScalar (emitter prog) x =
                (if use_64bit_indexing prog then ExtSIOp (IntegerType 64) x else x)" ..
  show ?thesis
    by (intro conjI) (fact 1 2 e(1) 4 5 6)+
qed

theorem index_type_selection_witness:
  "(\<exists>prog ptr cs. EmitMatMul ex_split_analysis ex_split_computation ex_split_config = Inr prog
      \<and> \<not> use_64bit_indexing prog
      \<and> Cst (emitter prog) 7 = Inr (ConstantOp (IntegerAttr (IntegerType 32) 7))
      \<and> ConvertScalar (emitter prog) (GetProgramIdOp Z) = GetProgramIdOp Z
      \<and> EmitTensorPointer (emitter prog) ex_split_dot (ex_out_side ex_split_config prog)
           [ex_out_base] (pid_k prog) [] = Inr (ptr, cs)
      \<and> added_offsets ptr = [MulIOp (GetProgramIdOp Z) (ConstantOp (IntegerAttr (IntegerType 32) 4096))]
      \<and> (\<forall>off\<in>set (added_offsets ptr). getType off = IntegerType 32))
   \<and> (\<exists>prog ptr cs.
        EmitMatMul ex_big_split_analysis ex_big_split_computation ex_split_config = Inr prog
      \<and> use_64bit_indexing prog
      \<and> Cst (emitter prog) 7 = Inr (ConstantOp (IntegerAttr (IntegerType 64) 7))
      \<and> ConvertScalar (emitter prog) (GetProgramIdOp Z) = ExtSIOp (IntegerType 64) (GetProgramIdOp Z)
      \<and> EmitTensorPointer (emitter prog) ex_big_split_dot (ex_out_side ex_split_config prog)
           [ex_out_base] (pid_k prog) [] = Inr (ptr, cs)
      \<and> added_offsets ptr = [MulIOp (ExtSIOp (IntegerType 64) (GetProgramIdOp Z))
                                (ConstantOp (IntegerAttr (IntegerType 64) 4194304))]
      \<and> (\<forall>off\<in>set (added_offsets ptr). getType off = IntegerType 64))
   \<and> ElementsIn (shape (operands ex_split_dot ! 0)) = 4096
   \<and> ElementsIn (shape (operands ex_big_split_dot ! 0)) = 4294967296"
proof -
  have "case EmitMatMul ex_split_analysis ex_split_computation ex_split_config of
          Inr p \<Rightarrow>
            (case EmitTensorPointer (emitter p) ex_split_dot (ex_out_side ex_split_config p)
                    [ex_out_base] (pid_k p) [] of
               Inr (ptr, cs) \<Rightarrow>
                 added_offsets ptr =
                   [MulIOp (GetProgramIdOp Z) (ConstantOp (IntegerAttr (IntegerType 32) 4096))]
             | Inl e \<Rightarrow> False)
        | Inl e \<Rightarrow> False"
    by code_simp
  then obtain small ptr cs where
    small: "EmitMatMul ex_split_analysis ex_split_computation ex_split_config = Inr small"
    and sp: "EmitTensorPointer (emitter small) ex_split_dot (ex_out_side ex_split_config small)
               [ex_out_base] (pid_k small) [] = Inr (ptr, cs)"
    and so: "added_offsets ptr =
               [MulIOp (GetProgramIdOp Z) (ConstantOp (IntegerAttr (IntegerType 32) 4096))]"
    by (auto split: sum.splits prod.splits)
  have "case EmitMatMul ex_big_split_analysis ex_big_split_computation ex_split_config of
          Inr p \<Rightarrow>
            (case EmitTensorPointer (emitter p) ex_big_split_dot (ex_out_side ex_split_config p)
                    [ex_out_base] (pid_k p) [] of
               Inr (ptr, cs) \<Rightarrow>
                 added_offsets ptr =
                   [MulIOp (ExtSIOp (IntegerType 64) (GetProgramIdOp Z))
                      (ConstantOp (IntegerAttr (IntegerType 64) 4194304))]
             | Inl e \<Rightarrow> False)
        | Inl e \<Rightarrow> False"
    by code_simp
  then obtain big bptr bcs where
    big: "EmitMatMul ex_big_split_analysis ex_big_split_computation ex_split_config = Inr big"
    and bp: "EmitTensorPointer (emitter big) ex_big_split_dot (ex_out_side ex_split_config big)
               [ex_out_base] (pid_k big) [] = Inr (bptr, bcs)"
    and bo: "added_offsets bptr =
               [MulIOp (ExtSIOp (IntegerType 64) (GetProgramIdOp Z))
                  (ConstantOp (IntegerAttr (IntegerType 64) 4194304))]"
    by (auto split: sum.splits prod.splits)
  have 1: "GetFirstInstructionWithOpcode ex_split_computation kDot = Some ex_split_dot"
    "operand ex_split_dot 0 = Inr ex_split_lhs" "operand ex_split_dot 1 = Inr ex_split_rhs"
    "fits_int64 (ElementsIn (shape ex_split_dot) * split_k ex_split_config)"
    by (simp_all add: GetFirstInstructionWithOpcode_def ex_split_computation_def ex_split_dot_def
        ex_split_lhs_def ex_split_rhs_def operand_def at_index_def ElementsIn_def array_shape_def
        ex_split_config_def ex_config_def fits_int64_def)
  have 2: "GetFirstInstructionWithOpcode ex_big_split_computation kDot = Some ex_big_split_dot"
    "operand ex_big_split_dot 0 = Inr ex_big_split_lhs"
    "operand ex_big_split_dot 1 = Inr ex_big_split_rhs"
    "fits_int64 (ElementsIn (shape ex_big_split_dot) * split_k ex_split_config)"
    by (simp_all add: GetFirstInstructionWithOpcode_def ex_big_split_computation_def
        ex_big_split_dot_def ex_big_split_lhs_def ex_big_split_rhs_def operand_def at_index_def
        ElementsIn_def array_shape_def ex_split_config_def ex_config_def fits_int64_def)
  have e: "ElementsIn (shape ex_split_lhs) = 4096" "ElementsIn (shape ex_split_rhs) = 4096"
    "ElementsIn (shape ex_split_dot) * split_k ex_split_config = 16384"
    "ElementsIn (shape ex_big_split_lhs) = 4294967296"
    "operands ex_split_dot ! 0 = ex_split_lhs" "operands ex_big_split_dot ! 0 = ex_big_split_lhs"
    by (simp_all add: ex_split_lhs_def ex_split_rhs_def ex_split_dot_def ex_big_split_lhs_def
        ex_big_split_dot_def ElementsIn_def array_shape_def ex_split_config_def ex_config_def)
  have b: "\<forall>b\<in>set [ex_out_base]. added_offsets b = []"
    by (simp add: ex_out_base_def)
  note s = index_type_selection [OF small 1]
  note l = index_type_selection [OF big 2]
  have s1: "\<not> use_64bit_indexing small"
    using s [THEN conjunct1] e by (simp add: INT_MAX_def)
  have l1: "use_64bit_indexing big"
    using l [THEN conjunct1] e by (simp add: INT_MAX_def)
  have s2: "index_ty small = IntegerType 32"
    using s [THEN conjunct2, THEN conjunct1] s1 by simp
  have l2: "index_ty big = IntegerType 64"
    using l [THEN conjunct2, THEN conjunct1] l1 by simp
  have s4: "Cst (emitter small) 7 = Inr (ConstantOp (IntegerAttr (IntegerType 32) 7))"
    using s [THEN conjunct2, THEN conjunct2, THEN conjunct2, THEN conjunct1, THEN spec, of 7] s1
    by (simp add: APInt_def int64_def)
  have l4: "Cst (emitter big) 7 = Inr (ConstantOp (IntegerAttr (IntegerType 64) 7))"
    using l [THEN conjunct2, THEN conjunct2, THEN conjunct2, THEN conjunct1, THEN spec, of 7] l1
    by (simp add: APInt_def int64_def)
  have s5: "ConvertScalar (emitter small) (GetProgramIdOp Z) = GetProgramIdOp Z"
    using s [THEN conjunct2, THEN conjunct2, THEN conjunct2, THEN conjunct2, THEN conjunct1,
             THEN spec, of "GetProgramIdOp Z"] s1
    by simp
  have l5: "ConvertScalar (emitter big) (GetProgramIdOp Z) =
              ExtSIOp (IntegerType 64) (GetProgramIdOp Z)"
    using l [THEN conjunct2, THEN conjunct2, THEN conjunct2, THEN conjunct2, THEN conjunct1,
             THEN spec, of "GetProgramIdOp Z"] l1
    by simp
  have s6: "\<forall>off\<in>set (added_offsets ptr). getType off = IntegerType 32"
    using s [THEN conjunct2, THEN conjunct2, THEN conjunct2, THEN conjunct2, THEN conjunct2,
             THEN spec, THEN spec, THEN spec, THEN spec, THEN spec, THEN spec, THEN mp,
             OF conjI, OF sp b] s2
    by simp
  have l6: "\<forall>off\<in>set (added_offsets bptr). getType off = IntegerType 64"
    using l [THEN conjunct2, THEN conjunct2, THEN conjunct2, THEN conjunct2, THEN conjunct2,
             THEN spec, THEN spec, THEN spec, THEN spec, THEN spec, THEN spec, THEN mp,
             OF conjI, OF bp b] l2
    by simp
  have c: "ElementsIn (shape (operands ex_split_dot ! 0)) = 4096"
    "ElementsIn (shape (operands ex_big_split_dot ! 0)) = 4294967296"
    using e by simp_all
  show ?thesis
    by (intro conjI exI) (fact small big sp bp so bo s1 l1 s6 l6 s4 l4 s5 l5 c)+
qed






subsection \<open>The cascading selection\<close>




lemma int_div_less:
  fixes x y b :: int
  assumes "0 < b" "x < y * b"
  shows "x div b < y"
proof -
  have "x div b \<le> (b * (y - 1) + (b - 1)) div b"
    using assms by (intro zdiv_mono1) (simp_all add: algebra_simps)
  moreover have "(b * (y - 1) + (b - 1)) div b = y - 1"
    using assms by (intro int_div_pos_eq [where r = "b - 1"]) simp_all
  ultimately show ?thesis by simp
qed

lemma int_mult_div_le:
  fixes x b :: int
  assumes "0 < b"
  shows "b * (x div b) \<le> x"
  using mult_div_mod_eq [of b x] pos_mod_sign [OF assms, of x] by linarith

lemma group_arith:
  fixes p gm gn :: int
  assumes gm: "1 \<le> gm" and gn: "1 \<le> gn" and p: "0 \<le> p" "p < gm * gn"
  defines "g \<equiv> p div (8 * gn)"
  defines "sz \<equiv> min (gm - 8 * g) 8"
  shows "0 \<le> g" and "8 * g \<le> gm - 1" and "g \<le> (gm - 1) div 8"
    and "1 \<le> sz" and "sz \<le> 8" and "8 * g + sz \<le> gm"
    and "sz = (if g < (gm - 1) div 8 then 8 else if gm mod 8 = 0 then 8 else gm mod 8)"
    and "(p mod (8 * gn)) div sz < gn"
    and "8 * gn * g \<le> p" and "p < 8 * gn * g + sz * gn"
proof -
  have g2: "g = (p div gn) div 8"
    unfolding g_def using gn by (simp add: zdiv_zmult2_eq mult.commute)
  have pg: "p div gn < gm" using p gn by (intro int_div_less) simp_all
  show g0: "0 \<le> g" unfolding g_def using p gn by (simp add: pos_imp_zdiv_nonneg_iff)
  have "8 * ((p div gn) div 8) \<le> p div gn"
    by (rule int_mult_div_le) simp
  then show g1: "8 * g \<le> gm - 1" using pg g2 by simp
  then show g3: "g \<le> (gm - 1) div 8" by simp
  show s1: "1 \<le> sz" using g1 by (simp add: sz_def)
  show s8: "sz \<le> 8" by (simp add: sz_def)
  show "8 * g + sz \<le> gm" by (simp add: sz_def)
  show "sz = (if g < (gm - 1) div 8 then 8 else if gm mod 8 = 0 then 8 else gm mod 8)"
  proof (cases "g < (gm - 1) div 8")
    case True
    then have "8 * (g + 1) \<le> 8 * ((gm - 1) div 8)" by simp
    also have "\<dots> \<le> gm - 1" by (rule int_mult_div_le) simp
    finally have "8 \<le> gm - 8 * g" by simp
    then show ?thesis using True by (simp add: sz_def)
  next
    case False
    then have e: "g = (gm - 1) div 8" using g3 by simp
    define r where "r = (gm - 1) mod 8"
    have r: "0 \<le> r" "r < 8" by (simp_all add: r_def)
    have "gm - 1 = 8 * g + r" unfolding e r_def by simp
    then have gm_eq: "gm = 8 * g + (r + 1)" by simp
    then have sz_eq: "sz = r + 1" using r by (simp add: sz_def)
    have "gm mod 8 = (r + 1) mod 8" unfolding gm_eq by simp
    then have "gm mod 8 = (if r = 7 then 0 else r + 1)" using r by simp
    then show ?thesis using False sz_eq r by auto
  qed
  have q: "p mod (8 * gn) = p - 8 * gn * g"
    unfolding g_def by (simp add: minus_mult_div_eq_mod)
  show lo: "8 * gn * g \<le> p"
    unfolding g_def using gn by (intro int_mult_div_le) simp
  have hi: "p < 8 * gn * g + sz * gn"
  proof (cases "gm - 8 * g \<le> 8")
    case True
    then have "gm = sz + 8 * g" by (simp add: sz_def)
    then have "gm * gn = 8 * gn * g + sz * gn" by (simp add: algebra_simps)
    then show ?thesis using p by simp
  next
    case False
    then have "sz = 8" by (simp add: sz_def)
    moreover have "p mod (8 * gn) < 8 * gn" using gn by simp
    ultimately show ?thesis using q by simp
  qed
  then show "p < 8 * gn * g + sz * gn" .
  have "p mod (8 * gn) < gn * sz" using hi q by (simp add: mult.commute)
  then show "(p mod (8 * gn)) div sz < gn"
    using s1 by (intro int_div_less) simp_all
qed

lemma APInt_32_id: "- (2 ^ 31) \<le> v \<Longrightarrow> v < 2 ^ 31 \<Longrightarrow> APInt 32 v = v"
  by (simp add: APInt_def signed_take_bit_int_eq_self)

lemma lane_c32: "lane \<rho> i (c32 v) = Some (IntV (APInt 32 v))"
  by (simp add: c32_def attr_value_def)

lemma bits_i32 [simp]:
  "bits (GetProgramIdOp d) = 32" "bits (c32 v) = 32"
  by (simp_all add: bits_def c32_def attrType_def getElementTypeOrSelf_def getIntOrFloatBitWidth_def)

lemma EmitMatMul_program_ids:
  assumes "EmitMatMul analysis computation config = Inr prog"
  shows "pid_nc prog = GetProgramIdOp (noncontracting_program_id_dim (launch_config prog))"
    and "width prog = int64 (group_m * grid_n (launch_config prog))"
    and "group_id prog = DivSIOp (pid_nc prog) (c32 (width prog))"
    and "first_pid_m prog = MulIOp (group_id prog) (c32 group_m)"
    and "group_size prog =
           SelectOp (CmpIOp slt (SubIOp (c32 (grid_m (launch_config prog))) (first_pid_m prog))
                       (c32 group_m))
             (SubIOp (c32 (grid_m (launch_config prog))) (first_pid_m prog)) (c32 group_m)"
    and "pid_m prog = AddIOp (first_pid_m prog) (RemSIOp (pid_nc prog) (group_size prog))"
    and "pid_n prog = DivSIOp (RemSIOp (pid_nc prog) (c32 (width prog))) (group_size prog)"
  using assms
  by (auto simp: EmitMatMul_def andThen_eq_Inr Let_def)

subsection \<open>The grouped program ids\<close>

text \<open>
  Claim C3. Let \<^verbatim>\<open>EmitMatMul\<close> get past its checks with a grid of gm by gn tiles
  (gm and 8 * gn within 32 bits), and let the non-contracting program id be p with
  0 \<le> p < gm * gn. With g = p / (8 * gn) and sz = min (gm - 8 * g, 8), the emitted
  terms evaluate to group\_id = g, first\_pid\_m = 8 * g, group\_size = sz,
  pid\_m = 8 * g + p mod sz and pid\_n = (p mod (8 * gn)) / sz. Group g is one of the
  groups 0, ..., (gm - 1) / 8; every group but the last has 8 m-tiles and the last has
  gm mod 8 (8 if that is 0); pid\_m lies among the m-tiles 8 * g, ..., 8 * g + sz - 1
  of the group, pid\_n is below gn, and the ids of group g are the range from
  8 * gn * g up to 8 * gn * g + sz * gn.
\<close>

theorem grouped_program_ids:
  assumes prog: "EmitMatMul analysis computation config = Inr prog"
    and grid: "grid_m (launch_config prog) = gm" "grid_n (launch_config prog) = gn"
    and gm: "1 \<le> gm" "gm < 2 ^ 31" and gn: "1 \<le> gn" "8 * gn < 2 ^ 31"
    and p: "\<rho> (pid_nc prog) = Some (IntV p)" "0 \<le> p" "p < gm * gn" "p < 2 ^ 31"
  shows "let g = p div (8 * gn); sz = min (gm - 8 * g) 8 in
           lane \<rho> i (group_id prog) = Some (IntV g)
         \<and> lane \<rho> i (first_pid_m prog) = Some (IntV (8 * g))
         \<and> lane \<rho> i (group_size prog) = Some (IntV sz)
         \<and> lane \<rho> i (pid_m prog) = Some (IntV (8 * g + p mod sz))
         \<and> lane \<rho> i (pid_n prog) = Some (IntV ((p mod (8 * gn)) div sz))
         \<and> 0 \<le> g \<and> g \<le> (gm - 1) div 8
         \<and> sz = (if g < (gm - 1) div 8 then 8 else if gm mod 8 = 0 then 8 else gm mod 8)
         \<and> 8 * g \<le> 8 * g + p mod sz \<and> 8 * g + p mod sz < 8 * g + sz \<and> 8 * g + sz \<le> gm
         \<and> 0 \<le> (p mod (8 * gn)) div sz \<and> (p mod (8 * gn)) div sz < gn
         \<and> 8 * gn * g \<le> p \<and> p < 8 * gn * g + sz * gn"
proof -
  define g where "g = p div (8 * gn)"
  define sz where "sz = min (gm - 8 * g) 8"
  note ar = group_arith [OF gm(1) gn(1) p(2,3), folded g_def, folded sz_def]
  note ids = EmitMatMul_program_ids [OF prog, unfolded grid]
  have w: "width prog = 8 * gn"
    using ids(2) gn by (simp add: group_m_def int64_id)
  have cw: "lane \<rho> i (c32 (width prog)) = Some (IntV (8 * gn))"
    using gn by (simp add: lane_c32 w APInt_32_id)
  have c8: "lane \<rho> i (c32 group_m) = Some (IntV 8)"
    by (simp add: lane_c32 group_m_def APInt_def)
  have cg: "lane \<rho> i (c32 gm) = Some (IntV gm)"
    using gm by (simp add: lane_c32 APInt_32_id)
  have nc: "lane \<rho> i (pid_nc prog) = Some (IntV p)"
    using p(1) by (simp add: ids(1))
  have bnc: "bits (pid_nc prog) = 32" by (simp add: ids(1))
  have gle: "g \<le> p"
  proof -
    have "g * 1 \<le> g * (8 * gn)" using ar(1) gn by (intro mult_left_mono) simp_all
    moreover have "8 * gn * g = g * (8 * gn)" by simp
    ultimately show ?thesis using ar(9) by linarith
  qed
  have 1: "lane \<rho> i (group_id prog) = Some (IntV g)"
    using nc cw gn p ar(1) gle
    by (simp add: ids(3) int_binop_def bnc sdiv_nonneg g_def [symmetric] APInt_32_id)
  have b1: "bits (group_id prog) = 32" by (simp add: ids(3) bits_def bnc [unfolded bits_def])
  have 2: "lane \<rho> i (first_pid_m prog) = Some (IntV (8 * g))"
    using 1 c8 ar(1,2) gm
    by (simp add: ids(4) int_binop_def b1 APInt_32_id mult.commute)
  have sub: "lane \<rho> i (SubIOp (c32 gm) (first_pid_m prog)) = Some (IntV (gm - 8 * g))"
    using 2 cg ar(1,2) gm by (simp add: int_binop_def APInt_32_id)
  have 3: "lane \<rho> i (group_size prog) = Some (IntV sz)"
    using sub c8 by (auto simp: ids(5) sz_def min_def)
  have m0: "0 \<le> p mod sz" "p mod sz < sz" using ar(4) by simp_all
  have rem: "lane \<rho> i (RemSIOp (pid_nc prog) (group_size prog)) = Some (IntV (p mod sz))"
    using nc 3 ar(4,5) p m0
    by (simp add: int_binop_def bnc smod_nonneg APInt_32_id)
  have b2: "bits (first_pid_m prog) = 32"
    by (simp add: ids(4) bits_def b1 [unfolded bits_def])
  have 4: "lane \<rho> i (pid_m prog) = Some (IntV (8 * g + p mod sz))"
    using 2 rem m0 ar(1,6) gm
    by (simp add: ids(6) int_binop_def b2 APInt_32_id)
  have q0: "0 \<le> p mod (8 * gn)" "p mod (8 * gn) < 8 * gn" using gn by simp_all
  have remw: "lane \<rho> i (RemSIOp (pid_nc prog) (c32 (width prog))) = Some (IntV (p mod (8 * gn)))"
    using nc cw gn p q0
    by (simp add: int_binop_def bnc smod_nonneg APInt_32_id)
  have d0: "0 \<le> (p mod (8 * gn)) div sz" using q0 ar(4) by (simp add: pos_imp_zdiv_nonneg_iff)
  have 5: "lane \<rho> i (pid_n prog) = Some (IntV ((p mod (8 * gn)) div sz))"
    using remw 3 ar(4,8) gn d0 q0
    by (simp add: ids(7) int_binop_def bits_def bnc [unfolded bits_def] sdiv_nonneg APInt_32_id)
  have e: "8 * g \<le> 8 * g + p mod sz" "8 * g + p mod sz < 8 * g + sz"
    using m0 by simp_all
  note facts = 1 2 3 4 5 ar(1,3,7) e ar(6) d0 ar(8,9,10)
  show ?thesis
    unfolding Let_def g_def [symmetric] sz_def [symmetric]
    by (intro conjI) (fact facts)+
qed
text \<open>
  With ten m-tiles and two n-tiles: id 3 is in group 0 (8 m-tiles from 0) and id 17 is
  in the final group 1 (2 m-tiles from 8).
\<close>

theorem grouped_program_ids_witness:
  "map_sum id (\<lambda>prog. (grid_m (launch_config prog), grid_n (launch_config prog)))
     (EmitMatMul ex_tall_analysis ex_tall_computation ex_config) = Inr (10, 2)
   \<and> map_sum id (\<lambda>prog. map (lane (ex_pid_env 3) 0)
         [group_id prog, first_pid_m prog, group_size prog, pid_m prog, pid_n prog])
       (EmitMatMul ex_tall_analysis ex_tall_computation ex_config)
     = Inr (map (\<lambda>v. Some (IntV v)) [0, 0, 8, 3, 0])
   \<and> map_sum id (\<lambda>prog. map (lane (ex_pid_env 17) 0)
         [group_id prog, first_pid_m prog, group_size prog, pid_m prog, pid_n prog])
       (EmitMatMul ex_tall_analysis ex_tall_computation ex_config)
     = Inr (map (\<lambda>v. Some (IntV v)) [1, 8, 2, 9, 0])"
proof -
  have "case EmitMatMul ex_tall_analysis ex_tall_computation ex_config of
          Inr prog \<Rightarrow> grid_m (launch_config prog) = 10 \<and> grid_n (launch_config prog) = 2
            \<and> pid_nc prog = GetProgramIdOp X
        | Inl e \<Rightarrow> False"
    by code_simp
  then obtain prog where prog: "EmitMatMul ex_tall_analysis ex_tall_computation ex_config = Inr prog"
    and grid: "grid_m (launch_config prog) = 10" "grid_n (launch_config prog) = 2"
    and nc: "pid_nc prog = GetProgramIdOp X"
    by (auto split: sum.splits)
  have r: "(1::int) \<le> 10" "(10::int) < 2 ^ 31" "(1::int) \<le> 2" "8 * (2::int) < 2 ^ 31"
    by simp_all
  have p3: "ex_pid_env 3 (pid_nc prog) = Some (IntV 3)" "(0::int) \<le> 3" "(3::int) < 10 * 2"
    "(3::int) < 2 ^ 31"
    by (simp_all add: nc ex_pid_env_def)
  have p17: "ex_pid_env 17 (pid_nc prog) = Some (IntV 17)" "(0::int) \<le> 17" "(17::int) < 10 * 2"
    "(17::int) < 2 ^ 31"
    by (simp_all add: nc ex_pid_env_def)
  show ?thesis
    using grouped_program_ids [where \<rho> = "ex_pid_env 3" and p = 3 and i = 0, OF prog grid r p3]
      grouped_program_ids [where \<rho> = "ex_pid_env 17" and p = 17 and i = 0, OF prog grid r p17]
      prog grid
    by (simp add: Let_def)
qed

lemma smod_eq_0_iff: "b \<noteq> 0 \<Longrightarrow> a smod b = 0 \<longleftrightarrow> b dvd a" for a b :: int
  by (auto simp: signed_modulo_int_def sgn_if mod_eq_0_iff_dvd)

lemma add_dim_inputs_specs:
  "add_dim_inputs a sc idx po inputs (s0, st0, of0, b0) = Inr (s, st, off, b) \<Longrightarrow>
   s = s0 @ map (\<lambda>inp. the (IterSpec a sc (unique_id inp) idx)) inputs"
proof (induction inputs arbitrary: s0 st0 of0 b0)
  case Nil
  then show ?case by simp
next
  case (Cons inp inputs)
  from Cons.prems obtain spec and frag :: IterationSpecFragment where
    spec: "IterSpec a sc (unique_id inp) idx = Some spec"
    and rec: "add_dim_inputs a sc idx po inputs
          (s0 @ [spec], st0 @ [Cst64 (stride frag)],
           of0 @ [AddIOp po (Cst32 (slice_start frag))], b0 @ [Cst64 (count frag)])
        = Inr (s, st, off, b)"
    by (auto simp: andThen_eq_Inr deref_def split: option.splits)
  from Cons.IH [OF rec] spec show ?case by simp
qed

lemma add_dim_step:
  assumes ok: "add_dim this hlo side c cb cpo d parts = Inr parts'"
    and fits: "fits_int32 (block_size d * split_value d)"
    and len: "int (length (bounds parts)) < 2 ^ 31"
  shows "if \<not> handled this hlo side d then parts' = parts
         else length (bounds parts') = Suc (length (bounds parts))
            \<and> length (block_dims parts') = Suc (length (block_dims parts))
            \<and> boundary_checks parts' = boundary_checks parts @
                (if index d \<noteq> c \<and> \<not> (block_size d * split_value d) dvd dim_extent this hlo side d
                 then [int (length (bounds parts))] else [])"
proof (cases "handled this hlo side d")
  case False
  then show ?thesis using ok by (simp add: add_dim_def handled_def)
next
  case True
  let ?inputs = "if opcode hlo = kConcatenate then operands hlo else [hlo]"
  let ?po = "if pid d = NullValue then Cst32 0 else MulIOp (pid d) (Cst32 (block_size d))"
  from ok True obtain specs ist iof ib where
    inp: "add_dim_inputs (this_analysis this) (scope side) (index d) ?po ?inputs ([], [], [], [])
            = Inr (specs, ist, iof, ib)"
    by (auto simp: add_dim_def handled_def Let_def andThen_eq_Inr)
  have specs: "specs = map (\<lambda>inp. the (IterSpec (this_analysis this) (scope side) (unique_id inp) (index d))) ?inputs"
    using add_dim_inputs_specs [OF inp] by simp
  have bs: "int32 (block_size d * split_value d) = block_size d * split_value d"
    using fits by (simp add: fits_int32_def int32_id)
  have l32: "int32 (int (length (bounds parts))) = int (length (bounds parts))"
    using len by (simp add: int32_id)
  show ?thesis
    using ok True inp
    apply (simp add: add_dim_def handled_def Let_def andThen_eq_Inr)
    apply (auto simp: andThen_eq_Inr at_index_def specs bs l32 dim_extent_def cpp_rem_def
        cpp_div_def deref_def smod_eq_0_iff Let_def hd_conv_nth
        split: if_splits option.splits)
    done
qed

lemma add_dims_checks:
  assumes "add_dims this hlo side c cb cpo ds parts = Inr parts'"
    and "\<forall>d\<in>set ds. fits_int32 (block_size d * split_value d)"
    and "int (length (bounds parts)) + int (length ds) < 2 ^ 31"
  shows "boundary_checks parts' =
           boundary_checks parts @ expected_checks this hlo side c ds (length (bounds parts))
         \<and> length (block_dims parts') =
           length (block_dims parts) + length (filter (handled this hlo side) ds)"
  using assms
proof (induction ds arbitrary: parts)
  case Nil
  then show ?case by simp
next
  case (Cons d ds)
  from Cons.prems(1) obtain mid where
    step: "add_dim this hlo side c cb cpo d parts = Inr mid"
    and rest: "add_dims this hlo side c cb cpo ds mid = Inr parts'"
    by (auto simp: andThen_eq_Inr)
  have f: "fits_int32 (block_size d * split_value d)" using Cons.prems(2) by simp
  have l: "int (length (bounds parts)) < 2 ^ 31" using Cons.prems(3) by simp
  note s = add_dim_step [OF step f l]
  have l': "int (length (bounds mid)) + int (length ds) < 2 ^ 31"
    using s Cons.prems(3) by (auto split: if_splits)
  have f': "\<forall>d\<in>set ds. fits_int32 (block_size d * split_value d)"
    using Cons.prems(2) by simp
  note ih = Cons.IH [OF rest f' l']
  show ?case
    using s ih by (auto split: if_splits)
qed

lemma expected_checks_unhandled:
  "filter (handled this hlo side) ds = [] \<Longrightarrow> expected_checks this hlo side c ds n = []"
  by (induction ds arbitrary: n) (auto split: if_splits)

lemma tensor_pointer_stages:
  assumes "andThen A (\<lambda>(c, cb, cpo, base).
             andThen (B c cb cpo) (\<lambda>parts.
             andThen (C cb cpo) (\<lambda>(bs, ob, hb).
             andThen (D base bs ob hb) (\<lambda>b1.
             andThen (E b1) (\<lambda>b2. F parts b2))))) = Inr r"
    and "\<And>c cb cpo base parts b2.
           A = Inr (c, cb, cpo, base) \<Longrightarrow> B c cb cpo = Inr parts \<Longrightarrow> F parts b2 = Inr r \<Longrightarrow> P"
  shows P
  using assms by (auto simp: andThen_eq_Inr split: prod.splits)

lemma EmitTensorPointer_parts:
  assumes "EmitTensorPointer this hlo side bases pk checks = Inr (ptr, checks')"
  shows "\<exists>cb cpo parts.
           add_dims this hlo side (concat_dim_of this hlo side) cb cpo (tiled_dims side)
             \<lparr>bounds = [], strides = [], tensor_offsets = [], block_dims = [],
              dim_order = [], block_offsets = [], boundary_checks = checks\<rparr> = Inr parts
           \<and> checks' = boundary_checks parts
           \<and> (block_dims parts \<noteq> [] \<longrightarrow> isTensorPointerType (getType ptr))"
proof (rule tensor_pointer_stages [OF assms [unfolded EmitTensorPointer_def]], goal_cases)
  case (1 c cb cpo base parts b2)
  have c: "c = concat_dim_of this hlo side"
    using 1(1)
    by (auto simp: concat_dim_of_def Let_def andThen_eq_Inr split: if_splits option.splits)
  have "checks' = boundary_checks parts"
    and "block_dims parts \<noteq> [] \<longrightarrow> isTensorPointerType (getType ptr)"
    using 1(3) by (auto simp: Let_def isTensorPointerType_def isShapedType_def split: if_splits)
  with 1(2) c show ?case by blast
qed

subsection \<open>Boundary checks\<close>

text \<open>
  Claim C4. When \<^verbatim>\<open>EmitTensorPointer\<close> succeeds from an empty list of boundary
  checks (and block\_size * split\_value fits in \<^verbatim>\<open>int\<close>), the checks it returns are
  exactly the expected ones: one check, the axis of the dimension, for every handled
  dimension that is not concatenated and whose extent is not a multiple of
  block\_size * split\_value, and no other. \<^verbatim>\<open>EmitParameterLoad\<close> passes these
  checks to the load and asks for zero padding if and only if the list is not empty.
\<close>

theorem boundary_checks_registered:
  assumes ok: "EmitTensorPointer this hlo side bases pk [] = Inr (ptr, checks)"
    and fits: "\<forall>d\<in>set (tiled_dims side). fits_int32 (block_size d * split_value d)"
    and len: "int (length (tiled_dims side)) < 2 ^ 31"
  shows "checks = expected_checks this hlo side (concat_dim_of this hlo side) (tiled_dims side) 0
       \<and> loaded_checks (EmitParameterLoad ptr checks) = checks
       \<and> (zero_fill (EmitParameterLoad ptr checks) \<longleftrightarrow> checks \<noteq> [])"
proof -
  from EmitTensorPointer_parts [OF ok] obtain cb cpo parts where
    loop: "add_dims this hlo side (concat_dim_of this hlo side) cb cpo (tiled_dims side)
             \<lparr>bounds = [], strides = [], tensor_offsets = [], block_dims = [],
              dim_order = [], block_offsets = [], boundary_checks = []\<rparr> = Inr parts"
    and checks: "checks = boundary_checks parts"
    and ty: "block_dims parts \<noteq> [] \<longrightarrow> isTensorPointerType (getType ptr)"
    by blast
  from add_dims_checks [OF loop fits] len
  have 1: "boundary_checks parts =
      expected_checks this hlo side (concat_dim_of this hlo side) (tiled_dims side) 0"
    and 2: "length (block_dims parts) = length (filter (handled this hlo side) (tiled_dims side))"
    by simp_all
  have 3: "checks = [] \<or> isTensorPointerType (getType ptr)"
  proof (cases "block_dims parts = []")
    case True
    then have "filter (handled this hlo side) (tiled_dims side) = []" using 2 by simp
    then show ?thesis using 1 checks by (simp add: expected_checks_unhandled)
  next
    case False
    then show ?thesis using ty by simp
  qed
  show ?thesis
    using 1 3 checks
    by (auto simp: EmitParameterLoad_def zero_fill_def loaded_checks_def Splat_def Let_def)
qed

text \<open>
  With 100 rows and blocks of 32 the row axis 0 is checked and the load pads with
  zero; with 64 rows no check is registered and the load has no padding.
\<close>

theorem boundary_checks_registered_witness:
  "(\<exists>ptr. EmitTensorPointer ex_ragged_emitter ex_ragged_lhs ex_lhs_side
            [BlockArgument 0 (PointerType Float32Type)] NullValue [] = Inr (ptr, [0])
         \<and> zero_fill (EmitParameterLoad ptr [0])
         \<and> loaded_checks (EmitParameterLoad ptr [0]) = [0])
   \<and> \<not> (32 * 1 :: int) dvd 100 \<and> (32 * 1 :: int) dvd 64
   \<and> (\<exists>ptr. EmitTensorPointer (ex_ragged_emitter\<lparr>this_analysis := ex_analysis\<rparr>) ex_lhs
            ex_lhs_side [BlockArgument 0 (PointerType Float32Type)] NullValue [] = Inr (ptr, [])
         \<and> \<not> zero_fill (EmitParameterLoad ptr []))"
proof -
  have "case EmitTensorPointer ex_ragged_emitter ex_ragged_lhs ex_lhs_side
            [BlockArgument 0 (PointerType Float32Type)] NullValue [] of
          Inr (p, c) \<Rightarrow> c = [0] | Inl e \<Rightarrow> False"
    by code_simp
  then obtain p1 where 1: "EmitTensorPointer ex_ragged_emitter ex_ragged_lhs ex_lhs_side
            [BlockArgument 0 (PointerType Float32Type)] NullValue [] = Inr (p1, [0])"
    by (auto split: sum.splits)
  have "case EmitTensorPointer (ex_ragged_emitter\<lparr>this_analysis := ex_analysis\<rparr>) ex_lhs
            ex_lhs_side [BlockArgument 0 (PointerType Float32Type)] NullValue [] of
          Inr (p, c) \<Rightarrow> c = [] | Inl e \<Rightarrow> False"
    by code_simp
  then obtain p2 where 2: "EmitTensorPointer (ex_ragged_emitter\<lparr>this_analysis := ex_analysis\<rparr>)
            ex_lhs ex_lhs_side [BlockArgument 0 (PointerType Float32Type)] NullValue []
          = Inr (p2, [])"
    by (auto split: sum.splits)
  have f: "\<forall>d\<in>set (tiled_dims ex_lhs_side). fits_int32 (block_size d * split_value d)"
    "int (length (tiled_dims ex_lhs_side)) < 2 ^ 31"
    by (simp_all add: ex_lhs_side_def fits_int32_def)
  from boundary_checks_registered [OF 1 f]
  have a: "zero_fill (EmitParameterLoad p1 [0])" "loaded_checks (EmitParameterLoad p1 [0]) = [0]"
    by blast+
  from boundary_checks_registered [OF 2 f]
  have b: "\<not> zero_fill (EmitParameterLoad p2 [])"
    by blast
  have d: "\<not> (32 * 1 :: int) dvd 100" "(32 * 1 :: int) dvd 64" by simp_all
  show ?thesis
    using 1 2 a b d by blast
qed

lemma concat_boundaries_loop_uncompilable:
  assumes "\<forall>opnd\<in>set ops. \<exists>fragment rest. IterSpec a sc (unique_id opnd) c = Some (fragment # rest)"
    and "bs \<noteq> 0"
    and "\<exists>opnd\<in>set ops. \<not> bs dvd sliced_count (hd (the (IterSpec a sc (unique_id opnd) c)))"
  shows "concat_boundaries_loop a sc c bs ops acc =
           Inl (Error (UncompilableMatmul ''Operand is not divisible by the block size.''))"
  using assms
proof (induction ops arbitrary: acc)
  case Nil
  then show ?case by simp
next
  case (Cons opnd ops)
  from Cons.prems(1) obtain fragment rest where
    spec: "IterSpec a sc (unique_id opnd) c = Some (fragment # rest)" by auto
  show ?case
  proof (cases "bs dvd sliced_count fragment")
    case True
    then have "\<exists>opnd\<in>set ops. \<not> bs dvd sliced_count (hd (the (IterSpec a sc (unique_id opnd) c)))"
      using Cons.prems(3) spec by auto
    then have "concat_boundaries_loop a sc c bs ops
        (acc @ [Cst32 (int64 (int64 (- slice_start fragment) + sliced_count fragment))]) =
           Inl (Error (UncompilableMatmul ''Operand is not divisible by the block size.''))"
      using Cons.prems(1,2) by (intro Cons.IH) auto
    then show ?thesis
      using spec True Cons.prems(2)
      by (simp add: deref_def at_index_def cpp_rem_def smod_eq_0_iff)
  next
    case False
    then show ?thesis
      using spec Cons.prems(2)
      by (simp add: deref_def at_index_def cpp_rem_def smod_eq_0_iff)
  qed
qed

subsection \<open>Concatenated operands that are not divisible\<close>

text \<open>
  Claim C6, amended. For a concatenation whose concatenated dimension is among the
  tiled dimensions with a block size other than zero, with as many base pointers as
  operands: if every operand but the last has an iteration specification for the
  concatenated dimension and the sliced count of one of them is not a multiple of the
  block size, then \<^verbatim>\<open>EmitTensorPointer\<close> returns the uncompilable-fusion status, a
  cancelled status whose payload under \<^verbatim>\<open>kUncompilableFusion\<close> is the explanation.
\<close>

theorem concat_operand_not_divisible:
  assumes concat: "opcode hlo = kConcatenate"
    and dim: "find (\<lambda>d. index d = concat_dim_of this hlo side) (tiled_dims side) = Some properties"
    and bases: "int (length bases) = operand_count hlo"
    and bs: "block_size properties \<noteq> 0"
    and specs: "\<forall>opnd\<in>set (butlast (operands hlo)). \<exists>fragment rest.
                  IterSpec (this_analysis this) (scope side) (unique_id opnd)
                    (concat_dim_of this hlo side) = Some (fragment # rest)"
    and bad: "\<exists>opnd\<in>set (butlast (operands hlo)).
                \<not> block_size properties dvd
                    sliced_count (hd (the (IterSpec (this_analysis this) (scope side)
                                        (unique_id opnd) (concat_dim_of this hlo side))))"
  shows "\<exists>st. EmitTensorPointer this hlo side bases pk checks = Inl (Error st)
           \<and> st = UncompilableMatmul ''Operand is not divisible by the block size.''
           \<and> code st = kCancelled
           \<and> GetPayload st kUncompilableFusion
               = Some ''Operand is not divisible by the block size.''"
proof -
  have c: "concat_dim_of this hlo side =
      (if scope side = LHS then lhs_noncontracting_dim_idx (this_dims this)
       else rhs_noncontracting_dim_idx (this_dims this))"
    using concat by (simp add: concat_dim_of_def)
  note loop = concat_boundaries_loop_uncompilable [OF specs bs bad, of "[]"]
  have "EmitTensorPointer this hlo side bases pk checks =
      Inl (Error (UncompilableMatmul ''Operand is not divisible by the block size.''))"
    unfolding EmitTensorPointer_def
    using concat dim [unfolded c] bases loop [unfolded c]
    by (simp add: Let_def TF_RET_CHECK_def)
  then show ?thesis
    by (simp add: UncompilableMatmul_def SetPayload_def CancelledError_def GetPayload_def)
qed

text \<open>
  Claim C6 as stated fails for the last operand: the sliced count 40 of the second of
  two operands is not a multiple of the block size 32, and \<^verbatim>\<open>EmitTensorPointer\<close>
  succeeds.
\<close>

theorem concat_last_operand_counterexample:
  "opcode ex_concat = kConcatenate
   \<and> length (operands ex_concat) = 2
   \<and> sliced_count (hd (the (ex_concat_spec LHS (unique_id (operands ex_concat ! 1)) 0))) = 40
   \<and> \<not> (32 :: int) dvd 40
   \<and> map_sum id snd
         (EmitTensorPointer (ex_concat_emitter ex_concat_spec) ex_concat ex_lhs_side
            (take 2 ex_bases) NullValue []) = Inr []"
  by code_simp

text \<open>
  With the operands swapped the operand of 40 rows is not the last one, and the
  uncompilable-fusion status is returned.
\<close>

theorem concat_operand_not_divisible_witness:
  "EmitTensorPointer (ex_concat_emitter ex_concat_swapped_spec) ex_concat_swapped ex_lhs_side
      (take 2 ex_bases) NullValue []
    = Inl (Error \<lparr>code = kCancelled,
                       message = ''Operand is not divisible by the block size.'',
                       message_args = [],
                       payloads = [(kUncompilableFusion,
                                    ''Operand is not divisible by the block size.'')]\<rparr>)"
proof -
  have 1: "opcode ex_concat_swapped = kConcatenate" by (simp add: ex_concat_swapped_def)
  have c: "concat_dim_of (ex_concat_emitter ex_concat_swapped_spec) ex_concat_swapped ex_lhs_side = 0"
    by (simp add: concat_dim_of_def ex_concat_swapped_def ex_lhs_side_def ex_concat_emitter_def
        ex_dims_def)
  have 2: "find (\<lambda>d. index d = concat_dim_of (ex_concat_emitter ex_concat_swapped_spec)
                               ex_concat_swapped ex_lhs_side) (tiled_dims ex_lhs_side)
      = Some \<lparr>index = 0, pid = GetProgramIdOp X, block_size = 32, split_value = 1\<rparr>"
    unfolding c by (simp add: ex_lhs_side_def)
  have 3: "int (length (take 2 ex_bases)) = operand_count ex_concat_swapped"
    by (simp add: ex_bases_def operand_count_def ex_concat_swapped_def)
  have 4: "block_size \<lparr>index = 0, pid = GetProgramIdOp X, block_size = 32, split_value = 1\<rparr> \<noteq> 0"
    by simp
  have 5: "\<forall>opnd\<in>set (butlast (operands ex_concat_swapped)). \<exists>fragment rest.
      IterSpec (this_analysis (ex_concat_emitter ex_concat_swapped_spec)) (scope ex_lhs_side)
        (unique_id opnd)
        (concat_dim_of (ex_concat_emitter ex_concat_swapped_spec) ex_concat_swapped ex_lhs_side)
      = Some (fragment # rest)"
    unfolding c
    by (simp add: ex_concat_swapped_def ex_concat_emitter_def ex_concat_swapped_spec_def
        ex_concat_b_def)
  have 6: "\<exists>opnd\<in>set (butlast (operands ex_concat_swapped)).
      \<not> block_size \<lparr>index = 0, pid = GetProgramIdOp X, block_size = 32, split_value = 1\<rparr> dvd
        sliced_count (hd (the (IterSpec (this_analysis (ex_concat_emitter ex_concat_swapped_spec))
          (scope ex_lhs_side) (unique_id opnd)
          (concat_dim_of (ex_concat_emitter ex_concat_swapped_spec) ex_concat_swapped
             ex_lhs_side))))"
    unfolding c
    by (simp add: ex_concat_swapped_def ex_concat_emitter_def ex_concat_swapped_spec_def
        ex_concat_b_def)
  show ?thesis
    using concat_operand_not_divisible [OF 1 2 3 4 5 6, of NullValue "[]"]
    by (auto simp: UncompilableMatmul_def SetPayload_def CancelledError_def)
qed

end
